theory Spec2Isabelle
  imports Complex_Main
begin

section \<open>Python values, dictionaries and exceptions\<close>

text \<open>
  The values that travel through the integration are what the device client decodes from
  the device's JSON answers and what the user types into the form. A Python \<open>dict\<close>
  with string keys is an association list in insertion order (a well-formed dictionary has
  no repeated key); \<open>d[k]\<close> and \<open>d.get(k)\<close> are lookups with \<open>map_of\<close>, \<open>d.keys()\<close>
  is \<open>map fst d\<close> and \<open>d.items()\<close> is the list itself.

  A Python \<open>float\<close> is an IEEE 754 binary64 number: a finite value, held as the rational
  number it denotes (\<open>Finite 0\<close> is \<open>0.0\<close>), the negative zero, an infinity or NaN. The
  floats the device reports are representable in binary64; every operation below rounds its
  result to binary64 again.
\<close>

datatype pyfloat = Finite rat | NegZero | PosInf | NegInf | NaN

datatype pyval =
    PNone
  | PBool bool
  | PInt int
  | PFloat pyfloat
  | PStr string
  | PList "pyval list"
  | PDict "(string \<times> pyval) list"

type_synonym pydict = "(string \<times> pyval) list"

text \<open>
  Exceptions are values. \<open>CannotConnect\<close> and \<open>InvalidAuth\<close> are the two classes of
  \<^verbatim>\<open>config_flow.py\<close> (both derive from \<open>HomeAssistantError\<close>, hence from \<open>Exception\<close>);
  \<open>KeyError\<close>, \<open>TypeError\<close> and \<open>OverflowError\<close> are the builtins the modelled code can
  raise itself;
  \<open>AbortFlow\<close> is the host framework's way of ending a flow; \<open>OtherException\<close> is an
  instance of any other subclass of \<open>Exception\<close>, named by its class (what the device
  client raises on a network failure, say); \<open>NonException\<close> is an instance of a class that
  derives from \<open>BaseException\<close> but not from \<open>Exception\<close> (\<open>asyncio.CancelledError\<close>,
  \<open>KeyboardInterrupt\<close>, \<open>SystemExit\<close>), which \<^verbatim>\<open>except Exception\<close> does not catch.
\<close>

datatype exn =
    CannotConnect
  | InvalidAuth
  | KeyError string
  | TypeError
  | OverflowError
  | AbortFlow string
  | OtherException string
  | NonException string

fun is_Exception :: "exn \<Rightarrow> bool" where
  "is_Exception (NonException c) = False"
| "is_Exception e = True"

definition getitem :: "(string \<times> 'a) list \<Rightarrow> string \<Rightarrow> exn + 'a" where
  \<comment> \<open>\<^verbatim>\<open>d[k]\<close>: raises \<open>KeyError\<close> on a missing key.\<close>
  "getitem d k = (case map_of d k of None \<Rightarrow> Inl (KeyError k) | Some v \<Rightarrow> Inr v)"

definition dict_get :: "pydict \<Rightarrow> string \<Rightarrow> pyval" where
  \<comment> \<open>\<^verbatim>\<open>d.get(k)\<close>: \<open>None\<close> on a missing key.\<close>
  "dict_get d k = (case map_of d k of None \<Rightarrow> PNone | Some v \<Rightarrow> v)"

subsection \<open>Float arithmetic\<close>

text \<open>
  \<open>pow2 k\<close> is \<open>2\<close> to the power \<open>k\<close>, \<open>bit_length\<close> is Python's \<open>int.bit_length\<close>, and
  \<open>floor_log2 q\<close> is the exponent \<open>e\<close> with \<open>2^e \<le> q < 2^(e+1)\<close> of a positive rational.
\<close>

definition pow2 :: "int \<Rightarrow> rat" where
  "pow2 k = (if 0 \<le> k then 2 ^ nat k else 1 / 2 ^ nat (- k))"

function bit_length :: "int \<Rightarrow> int" where
  "bit_length n = (if n \<le> 0 then 0 else 1 + bit_length (n div 2))"
  by pat_completeness auto
termination
  by (relation "measure nat") auto

declare bit_length.simps [simp del]

definition floor_log2 :: "rat \<Rightarrow> int" where
  "floor_log2 q =
     (let (n, d) = quotient_of q;
          e = bit_length n - bit_length d
      in if pow2 e \<le> q then e else e - 1)"

definition round_half_even :: "rat \<Rightarrow> int" where
  "round_half_even y =
     (let f = \<lfloor>y\<rfloor>; r = y - of_int f
      in if r < 1 / 2 then f else if 1 / 2 < r then f + 1 else if even f then f else f + 1)"

text \<open>
  Rounding to the nearest binary64 number, ties to the even significand: 53 significant
  bits, and below \<open>2^-1022\<close> the fixed spacing \<open>2^-1074\<close> of the subnormal numbers. The
  exponent is not bounded above here; the two callers deal with the upper end of the range.
\<close>

definition round_positive :: "rat \<Rightarrow> rat" where
  "round_positive q =
     (let e = max (floor_log2 q) (- 1022); ulp = pow2 (e - 52)
      in of_int (round_half_even (q / ulp)) * ulp)"

definition round_binary64 :: "rat \<Rightarrow> rat" where
  "round_binary64 q =
     (if q = 0 then 0 else if q < 0 then - round_positive (- q) else round_positive q)"

text \<open>
  The conversion of an \<open>int\<close> operand to \<open>float\<close>: correctly rounded, and
  \<open>OverflowError\<close> (\<open>int too large to convert to float\<close>) when the rounded value is out of
  the range of binary64.
\<close>

definition int_to_float :: "int \<Rightarrow> exn + pyfloat" where
  "int_to_float i =
     (let r = round_binary64 (of_int i)
      in if pow2 1024 \<le> \<bar>r\<bar> then Inl OverflowError else Inr (Finite r))"

text \<open>
  \<^verbatim>\<open>x / 10.0\<close> on a float \<open>x\<close>: the quotient rounded to binary64. A quotient that rounds to
  zero keeps the sign of \<open>x\<close>; an infinity and NaN divide to themselves; the quotient of a
  finite float by ten never leaves the range.
\<close>

definition float_div10 :: "pyfloat \<Rightarrow> pyfloat" where
  "float_div10 x =
     (case x of
        Finite q \<Rightarrow>
          (let r = round_binary64 (q / 10)
           in if r = 0 \<and> q < 0 then NegZero else Finite r)
      | NegZero \<Rightarrow> NegZero
      | PosInf \<Rightarrow> PosInf
      | NegInf \<Rightarrow> NegInf
      | NaN \<Rightarrow> NaN)"

subsection \<open>Rendering a value in an f-string\<close>

text \<open>
  \<^verbatim>\<open>f"{v}"\<close> renders \<open>v\<close> as \<open>str(v)\<close>: a string as itself, \<open>None\<close> as \<open>None\<close>, a
  \<open>bool\<close> as \<open>True\<close> or \<open>False\<close>, an \<open>int\<close> in decimal. What \<open>str\<close> makes of a float, a list or a dictionary (the shortest
  round-trip digits, the \<open>repr\<close> of the elements) is not modelled: \<open>py_str\<close> has no
  equation there, and nothing is proved about those renderings.
\<close>

function digits :: "int \<Rightarrow> string" where
  "digits n =
     (if n < 10 then [char_of (48 + n)] else digits (n div 10) @ [char_of (48 + n mod 10)])"
  by pat_completeness auto
termination
  by (relation "measure nat") auto

declare digits.simps [simp del]

fun py_str :: "pyval \<Rightarrow> string" where
  "py_str (PStr s) = s"
| "py_str PNone = ''None''"
| "py_str (PBool b) = (if b then ''True'' else ''False'')"
| "py_str (PInt i) = (if i < 0 then CHR ''-'' # digits (- i) else digits i)"

section \<open>The setup wizard (config\_flow.py)\<close>

subsection \<open>What the module takes from outside\<close>

text \<open>
  The device client \<open>aioairq.AirQ\<close> is an external library. Of one client object the
  model keeps the outcome of each of the two awaits the wizard makes on it:
  \<open>test_authentication()\<close>, which returns a \<open>bool\<close> or raises, and \<open>get(endpoint)\<close>,
  which returns a mapping or raises.
\<close>

record AirQ_client =
  test_authentication :: "exn + bool"
  get :: "string \<Rightarrow> exn + pydict"

text \<open>
  Everything else \<^verbatim>\<open>config_flow.py\<close> uses and does not define is a parameter, collected
  in one record: the three constants it imports from \<^verbatim>\<open>const.py\<close> (not among the source
  files), the constructor \<open>AirQ(address, password)\<close>, and the two
  methods of the host framework's \<open>ConfigFlow\<close> base class that may end the flow:
  \<open>async_set_unique_id\<close> and \<open>_abort_if_unique_id_configured\<close> (\<open>None\<close>: the call
  returns; \<open>Some e\<close>: it raises \<open>e\<close>).
\<close>

record externals =
  CONF_ID :: string
  CONF_IP_ADDRESS :: string
  CONF_SECRET :: string
  AirQ :: "pyval \<Rightarrow> pyval \<Rightarrow> exn + AirQ_client"
  async_set_unique_id :: "pyval \<Rightarrow> exn option"
  abort_if_unique_id_configured :: "pyval \<Rightarrow> exn option"

subsection \<open>Effects\<close>

text \<open>
  The wizard's effects are the calls it makes on the device client, the record it writes to
  the log and the unique id it sets on the flow. They are collected, in order, in a list of
  events.
\<close>

datatype event =
    Authenticate
  | Get string
  | LogException string
  | SetUniqueId pyval
  | AbortIfUniqueIdConfigured

subsection \<open>The form schema and the flow's results\<close>

datatype field_type = Str

record schema_field =
  field_name :: string
  field_required :: bool
  field_type :: field_type

definition STEP_USER_DATA_SCHEMA :: "externals \<Rightarrow> schema_field list" where
  "STEP_USER_DATA_SCHEMA x =
     [\<lparr>field_name = CONF_IP_ADDRESS x, field_required = True, field_type = Str\<rparr>,
      \<lparr>field_name = CONF_SECRET x, field_required = True, field_type = Str\<rparr>]"

text \<open>
  A flow result is the call on the framework that \<open>async_step_user\<close> returns:
  \<open>async_show_form(step_id, data_schema, errors)\<close> or \<open>async_create_entry(title, data)\<close>.
\<close>

datatype FlowResult =
    async_show_form string "schema_field list" "(string \<times> string) list option"
  | async_create_entry pyval pydict

subsection \<open>PlaceholderHub\<close>

record PlaceholderHub =
  airq :: AirQ_client

definition PlaceholderHub_init :: "externals \<Rightarrow> pyval \<Rightarrow> pyval \<Rightarrow> exn + PlaceholderHub" where
  "PlaceholderHub_init x address password =
     (case AirQ x address password of
        Inl e \<Rightarrow> Inl e
      | Inr client \<Rightarrow> Inr \<lparr>airq = client\<rparr>)"

definition authenticate :: "PlaceholderHub \<Rightarrow> exn + bool" where
  "authenticate hub = test_authentication (airq hub)"

subsection \<open>validate\_input\<close>

text \<open>
  The result is the returned dictionary or the exception raised, paired with the calls made
  on the device client, in order. The parameter \<open>hass\<close> of the source is not used by it
  and is left out.
\<close>

definition validate_input :: "externals \<Rightarrow> pydict \<Rightarrow> (exn + pydict) \<times> event list" where
  "validate_input x data =
     (case getitem data (CONF_IP_ADDRESS x) of
        Inl e \<Rightarrow> (Inl e, [])
      | Inr address \<Rightarrow>
     (case getitem data (CONF_SECRET x) of
        Inl e \<Rightarrow> (Inl e, [])
      | Inr password \<Rightarrow>
     (case PlaceholderHub_init x address password of
        Inl e \<Rightarrow> (Inl e, [])
      | Inr hub \<Rightarrow>
     (case authenticate hub of
        Inl e \<Rightarrow> (Inl e, [Authenticate])
      | Inr ok \<Rightarrow>
          if \<not> ok then (Inl InvalidAuth, [Authenticate])
          else
     (case get (airq hub) ''config'' of
        Inl e \<Rightarrow> (Inl e, [Authenticate, Get ''config''])
      | Inr config \<Rightarrow>
     (case getitem config ''devicename'' of
        Inl e \<Rightarrow> (Inl e, [Authenticate, Get ''config''])
      | Inr devicename \<Rightarrow>
     (case getitem config ''id'' of
        Inl e \<Rightarrow> (Inl e, [Authenticate, Get ''config''])
      | Inr device_id \<Rightarrow>
          (Inr [(''title'', PStr (''Air-Q '' @ py_str devicename)),
                (''id'', device_id)],
           [Authenticate, Get ''config'']))))))))"

subsection \<open>ConfigFlow.async\_step\_user\<close>

text \<open>
  The flow object's state, as far as the step touches it: the unique id set on the flow and
  the events so far.
\<close>

record flow =
  unique_id :: "pyval option"
  events :: "event list"

definition new_flow :: flow where
  "new_flow = \<lparr>unique_id = None, events = []\<rparr>"

definition async_step_user :: "externals \<Rightarrow> pydict option \<Rightarrow> (exn + FlowResult) \<times> flow" where
  "async_step_user x user_input =
     (case user_input of
        None \<Rightarrow> (Inr (async_show_form ''user'' (STEP_USER_DATA_SCHEMA x) None), new_flow)
      | Some ui \<Rightarrow>
     (case validate_input x ui of
        (Inl e, calls) \<Rightarrow>
          if e = CannotConnect then
            (Inr (async_show_form ''user'' (STEP_USER_DATA_SCHEMA x)
                    (Some [(''base'', ''cannot_connect'')])),
             new_flow\<lparr>events := calls\<rparr>)
          else if e = InvalidAuth then
            (Inr (async_show_form ''user'' (STEP_USER_DATA_SCHEMA x)
                    (Some [(''base'', ''invalid_auth'')])),
             new_flow\<lparr>events := calls\<rparr>)
          else if is_Exception e then
            (Inr (async_show_form ''user'' (STEP_USER_DATA_SCHEMA x)
                    (Some [(''base'', ''unknown'')])),
             new_flow\<lparr>events := calls @ [LogException ''Unexpected exception'']\<rparr>)
          else (Inl e, new_flow\<lparr>events := calls\<rparr>)
      | (Inr info, calls) \<Rightarrow>
     (case getitem info (CONF_ID x) of
        Inl e \<Rightarrow> (Inl e, new_flow\<lparr>events := calls\<rparr>)
      | Inr uid \<Rightarrow>
     (case async_set_unique_id x uid of
        Some e \<Rightarrow> (Inl e, new_flow\<lparr>events := calls @ [SetUniqueId uid]\<rparr>)
      | None \<Rightarrow>
     (case abort_if_unique_id_configured x uid of
        Some e \<Rightarrow>
          (Inl e, \<lparr>unique_id = Some uid,
                   events = calls @ [SetUniqueId uid, AbortIfUniqueIdConfigured]\<rparr>)
      | None \<Rightarrow>
     (case getitem info ''title'' of
        Inl e \<Rightarrow>
          (Inl e, \<lparr>unique_id = Some uid,
                   events = calls @ [SetUniqueId uid, AbortIfUniqueIdConfigured]\<rparr>)
      | Inr title \<Rightarrow>
          (Inr (async_create_entry title ui),
           \<lparr>unique_id = Some uid,
            events = calls @ [SetUniqueId uid, AbortIfUniqueIdConfigured]\<rparr>)))))))"

section \<open>The sensor platform (sensor.py)\<close>

subsection \<open>Entity descriptions\<close>

text \<open>
  The units and device classes are constants of the host framework; the catalog only names
  them, so each is a constructor carrying the constant's name.
\<close>

datatype unit_of_measurement =
    CONCENTRATION_MICROGRAMS_PER_CUBIC_METER
  | CONCENTRATION_MILLIGRAMS_PER_CUBIC_METER
  | CONCENTRATION_PARTS_PER_BILLION
  | CONCENTRATION_PARTS_PER_MILLION
  | PERCENTAGE
  | PRESSURE_HPA
  | SOUND_PRESSURE_WEIGHTED_DBA
  | TEMP_CELSIUS
  | ACTIVITY_BECQUEREL_PER_CUBIC_METER
  | CONCENTRATION_GRAMS_PER_CUBIC_METER

datatype SensorDeviceClass =
    CO | CO2 | HUMIDITY | NITROUS_OXIDE | NITROGEN_MONOXIDE | NITROGEN_DIOXIDE | OZONE
  | PM1 | PM25 | PM10 | PRESSURE | SULPHUR_DIOXIDE | TEMPERATURE
  | VOLATILE_ORGANIC_COMPOUNDS

datatype SensorStateClass = MEASUREMENT

text \<open>
  \<open>value_transform_fn\<close> is any callable: a function from the raw value to the value it
  returns or the exception it raises.
\<close>

record AirQEntityDescription =
  key :: string
  name :: string
  device_class :: "SensorDeviceClass option"
  native_unit_of_measurement :: unit_of_measurement
  state_class :: SensorStateClass
  icon :: "string option"
  value_transform_fn :: "pyval \<Rightarrow> exn + pyval"

definition default_value_transform_fn :: "pyval \<Rightarrow> exn + pyval" where
  \<comment> \<open>the field's default, \<^verbatim>\<open>lambda x: x\<close>\<close>
  "default_value_transform_fn x = Inr x"

text \<open>
  \<^verbatim>\<open>index_value / 10.0\<close>: true division by a float. An \<open>int\<close> or \<open>bool\<close> (a subclass of
  \<open>int\<close>) is converted to \<open>float\<close> first, which raises \<open>OverflowError\<close> on an \<open>int\<close> out of
  the float range; the float is then divided by \<open>10.0\<close>. \<open>None\<close>, strings, lists and
  dictionaries raise \<open>TypeError\<close>.
\<close>

fun index2percent :: "pyval \<Rightarrow> exn + pyval" where
  "index2percent (PInt i) =
     (case int_to_float i of
        Inl e \<Rightarrow> Inl e
      | Inr f \<Rightarrow> Inr (PFloat (float_div10 f)))"
| "index2percent (PFloat f) = Inr (PFloat (float_div10 f))"
| "index2percent (PBool b) = Inr (PFloat (float_div10 (Finite (if b then 1 else 0))))"
| "index2percent PNone = Inl TypeError"
| "index2percent (PStr s) = Inl TypeError"
| "index2percent (PList vs) = Inl TypeError"
| "index2percent (PDict kvs) = Inl TypeError"

definition SENSOR_TYPES :: "AirQEntityDescription list" where
  "SENSOR_TYPES = [
      \<lparr>key = ''nh3_MR100'', name = ''Ammonia'', device_class = None,
       native_unit_of_measurement = CONCENTRATION_MICROGRAMS_PER_CUBIC_METER, state_class = MEASUREMENT,
       icon = None, value_transform_fn = default_value_transform_fn\<rparr>,
      \<lparr>key = ''cl2_M20'', name = ''Chlorine'', device_class = None,
       native_unit_of_measurement = CONCENTRATION_MICROGRAMS_PER_CUBIC_METER, state_class = MEASUREMENT,
       icon = None, value_transform_fn = default_value_transform_fn\<rparr>,
      \<lparr>key = ''co'', name = ''CO'', device_class = Some CO,
       native_unit_of_measurement = CONCENTRATION_MILLIGRAMS_PER_CUBIC_METER, state_class = MEASUREMENT,
       icon = None, value_transform_fn = default_value_transform_fn\<rparr>,
      \<lparr>key = ''co2'', name = ''CO2'', device_class = Some CO2,
       native_unit_of_measurement = CONCENTRATION_PARTS_PER_MILLION, state_class = MEASUREMENT,
       icon = None, value_transform_fn = default_value_transform_fn\<rparr>,
      \<lparr>key = ''dewpt'', name = ''Dew point'', device_class = None,
       native_unit_of_measurement = TEMP_CELSIUS, state_class = MEASUREMENT,
       icon = Some ''mdi:water-thermometer'', value_transform_fn = default_value_transform_fn\<rparr>,
      \<lparr>key = ''ethanol'', name = ''Ethanol'', device_class = None,
       native_unit_of_measurement = CONCENTRATION_MICROGRAMS_PER_CUBIC_METER, state_class = MEASUREMENT,
       icon = None, value_transform_fn = default_value_transform_fn\<rparr>,
      \<lparr>key = ''ch2o_M10'', name = ''Formaldehyde'', device_class = None,
       native_unit_of_measurement = CONCENTRATION_MICROGRAMS_PER_CUBIC_METER, state_class = MEASUREMENT,
       icon = None, value_transform_fn = default_value_transform_fn\<rparr>,
      \<lparr>key = ''h2s'', name = ''H2S'', device_class = None,
       native_unit_of_measurement = CONCENTRATION_MICROGRAMS_PER_CUBIC_METER, state_class = MEASUREMENT,
       icon = None, value_transform_fn = default_value_transform_fn\<rparr>,
      \<lparr>key = ''health'', name = ''Health Index'', device_class = None,
       native_unit_of_measurement = PERCENTAGE, state_class = MEASUREMENT,
       icon = Some ''mdi:heart-pulse'', value_transform_fn = index2percent\<rparr>,
      \<lparr>key = ''humidity'', name = ''Humidity'', device_class = Some HUMIDITY,
       native_unit_of_measurement = PERCENTAGE, state_class = MEASUREMENT,
       icon = None, value_transform_fn = default_value_transform_fn\<rparr>,
      \<lparr>key = ''humidity_abs'', name = ''Absolute humidity'', device_class = None,
       native_unit_of_measurement = CONCENTRATION_GRAMS_PER_CUBIC_METER, state_class = MEASUREMENT,
       icon = Some ''mdi:water'', value_transform_fn = default_value_transform_fn\<rparr>,
      \<lparr>key = ''h2_M1000'', name = ''Hydrogen'', device_class = None,
       native_unit_of_measurement = CONCENTRATION_MICROGRAMS_PER_CUBIC_METER, state_class = MEASUREMENT,
       icon = None, value_transform_fn = default_value_transform_fn\<rparr>,
      \<lparr>key = ''ch4_MIPEX'', name = ''Methane'', device_class = None,
       native_unit_of_measurement = PERCENTAGE, state_class = MEASUREMENT,
       icon = None, value_transform_fn = default_value_transform_fn\<rparr>,
      \<lparr>key = ''n2o'', name = ''N2O'', device_class = Some NITROUS_OXIDE,
       native_unit_of_measurement = CONCENTRATION_MICROGRAMS_PER_CUBIC_METER, state_class = MEASUREMENT,
       icon = None, value_transform_fn = default_value_transform_fn\<rparr>,
      \<lparr>key = ''no_M250'', name = ''NO'', device_class = Some NITROGEN_MONOXIDE,
       native_unit_of_measurement = CONCENTRATION_MICROGRAMS_PER_CUBIC_METER, state_class = MEASUREMENT,
       icon = None, value_transform_fn = default_value_transform_fn\<rparr>,
      \<lparr>key = ''no2'', name = ''NO2'', device_class = Some NITROGEN_DIOXIDE,
       native_unit_of_measurement = CONCENTRATION_MICROGRAMS_PER_CUBIC_METER, state_class = MEASUREMENT,
       icon = None, value_transform_fn = default_value_transform_fn\<rparr>,
      \<lparr>key = ''o3'', name = ''Ozone'', device_class = Some OZONE,
       native_unit_of_measurement = CONCENTRATION_MICROGRAMS_PER_CUBIC_METER, state_class = MEASUREMENT,
       icon = None, value_transform_fn = default_value_transform_fn\<rparr>,
      \<lparr>key = ''oxygen'', name = ''Oxygen'', device_class = None,
       native_unit_of_measurement = PERCENTAGE, state_class = MEASUREMENT,
       icon = Some ''mdi:leaf'', value_transform_fn = default_value_transform_fn\<rparr>,
      \<lparr>key = ''performance'', name = ''Performance Index'', device_class = None,
       native_unit_of_measurement = PERCENTAGE, state_class = MEASUREMENT,
       icon = Some ''mdi:head-check'', value_transform_fn = index2percent\<rparr>,
      \<lparr>key = ''pm1'', name = ''PM1'', device_class = Some PM1,
       native_unit_of_measurement = CONCENTRATION_MICROGRAMS_PER_CUBIC_METER, state_class = MEASUREMENT,
       icon = Some ''mdi:dots-hexagon'', value_transform_fn = default_value_transform_fn\<rparr>,
      \<lparr>key = ''pm2_5'', name = ''PM2.5'', device_class = Some PM25,
       native_unit_of_measurement = CONCENTRATION_MICROGRAMS_PER_CUBIC_METER, state_class = MEASUREMENT,
       icon = Some ''mdi:dots-hexagon'', value_transform_fn = default_value_transform_fn\<rparr>,
      \<lparr>key = ''pm10'', name = ''PM10'', device_class = Some PM10,
       native_unit_of_measurement = CONCENTRATION_MICROGRAMS_PER_CUBIC_METER, state_class = MEASUREMENT,
       icon = Some ''mdi:dots-hexagon'', value_transform_fn = default_value_transform_fn\<rparr>,
      \<lparr>key = ''pressure'', name = ''Pressure'', device_class = Some PRESSURE,
       native_unit_of_measurement = PRESSURE_HPA, state_class = MEASUREMENT,
       icon = None, value_transform_fn = default_value_transform_fn\<rparr>,
      \<lparr>key = ''pressure_rel'', name = ''Relative pressure'', device_class = None,
       native_unit_of_measurement = PRESSURE_HPA, state_class = MEASUREMENT,
       icon = Some ''mdi:gauge'', value_transform_fn = default_value_transform_fn\<rparr>,
      \<lparr>key = ''c3h8_MIPEX'', name = ''Propane'', device_class = None,
       native_unit_of_measurement = PERCENTAGE, state_class = MEASUREMENT,
       icon = None, value_transform_fn = default_value_transform_fn\<rparr>,
      \<lparr>key = ''so2'', name = ''SO2'', device_class = Some SULPHUR_DIOXIDE,
       native_unit_of_measurement = CONCENTRATION_MICROGRAMS_PER_CUBIC_METER, state_class = MEASUREMENT,
       icon = None, value_transform_fn = default_value_transform_fn\<rparr>,
      \<lparr>key = ''sound'', name = ''Noise'', device_class = None,
       native_unit_of_measurement = SOUND_PRESSURE_WEIGHTED_DBA, state_class = MEASUREMENT,
       icon = Some ''mdi:ear-hearing'', value_transform_fn = default_value_transform_fn\<rparr>,
      \<lparr>key = ''sound_max'', name = ''Noise (Maximum)'', device_class = None,
       native_unit_of_measurement = SOUND_PRESSURE_WEIGHTED_DBA, state_class = MEASUREMENT,
       icon = Some ''mdi:ear-hearing'', value_transform_fn = default_value_transform_fn\<rparr>,
      \<lparr>key = ''radon'', name = ''Radon'', device_class = None,
       native_unit_of_measurement = ACTIVITY_BECQUEREL_PER_CUBIC_METER, state_class = MEASUREMENT,
       icon = Some ''mdi:radioactive'', value_transform_fn = default_value_transform_fn\<rparr>,
      \<lparr>key = ''temperature'', name = ''Temperature'', device_class = Some TEMPERATURE,
       native_unit_of_measurement = TEMP_CELSIUS, state_class = MEASUREMENT,
       icon = None, value_transform_fn = default_value_transform_fn\<rparr>,
      \<lparr>key = ''tvoc'', name = ''VOC'', device_class = Some VOLATILE_ORGANIC_COMPOUNDS,
       native_unit_of_measurement = CONCENTRATION_PARTS_PER_BILLION, state_class = MEASUREMENT,
       icon = None, value_transform_fn = default_value_transform_fn\<rparr>,
      \<lparr>key = ''tvoc_ionsc'', name = ''VOC (Industrial)'', device_class = Some VOLATILE_ORGANIC_COMPOUNDS,
       native_unit_of_measurement = CONCENTRATION_PARTS_PER_BILLION, state_class = MEASUREMENT,
       icon = None, value_transform_fn = default_value_transform_fn\<rparr>]"

subsection \<open>Coordinator, host objects and the sensor entity\<close>

text \<open>
  \<open>AirQCoordinator\<close> is declared in the package's \<^verbatim>\<open>__init__.py\<close>, which is not among
  the source files; the sensor platform reads three attributes of it. \<open>device_id\<close> is held
  as the text the f-string of \<open>AirQSensor.__init__\<close> renders it to. \<open>hass.data\<close> is a
  dictionary of dictionaries, from the integration's domain and the entry id to the
  coordinator.
\<close>

record AirQCoordinator =
  data :: pydict
  device_id :: string
  device_info :: pydict

record HomeAssistant =
  hass_data :: "(string \<times> (string \<times> AirQCoordinator) list) list"

record ConfigEntry =
  entry_id :: string

record AirQSensor =
  coordinator :: AirQCoordinator
  entity_description :: AirQEntityDescription
  attr_has_entity_name :: bool
  attr_device_info :: pydict
  attr_name :: string
  attr_unique_id :: string

definition AirQSensor_init :: "AirQCoordinator \<Rightarrow> AirQEntityDescription \<Rightarrow> AirQSensor" where
  "AirQSensor_init coord description =
     \<lparr>coordinator = coord,
      entity_description = description,
      attr_has_entity_name = True,
      attr_device_info = device_info coord,
      attr_name = name description,
      attr_unique_id = device_id coord @ ''_'' @ key description\<rparr>"

text \<open>
  \<open>native_value\<close> reads the coordinator's data at the time of the read: an entity whose
  coordinator has since been refreshed is the entity with its \<open>coordinator\<close> field updated.
\<close>

definition native_value :: "AirQSensor \<Rightarrow> exn + pyval" where
  "native_value self =
     (let value_raw = dict_get (data (coordinator self)) (key (entity_description self))
      in value_transform_fn (entity_description self) value_raw)"

subsection \<open>Python's \<open>in\<close> and \<open>join\<close>\<close>

fun startswith :: "string \<Rightarrow> string \<Rightarrow> bool" where
  "startswith [] s = True"
| "startswith (c # cs) [] = False"
| "startswith (c # cs) (d # ds) = (c = d \<and> startswith cs ds)"

fun substring_of :: "string \<Rightarrow> string \<Rightarrow> bool" where
  "substring_of n [] = (n = [])"
| "substring_of n (c # s) = (startswith n (c # s) \<or> substring_of n s)"

text \<open>
  \<^verbatim>\<open>needle in v\<close> for a string \<open>needle\<close>: a substring test on a string, membership on a
  list, key membership on a dictionary, and \<open>TypeError\<close> on a value that is not iterable.
\<close>

fun str_in :: "string \<Rightarrow> pyval \<Rightarrow> exn + bool" where
  "str_in needle (PStr s) = Inr (substring_of needle s)"
| "str_in needle (PList vs) = Inr (PStr needle \<in> set vs)"
| "str_in needle (PDict kvs) = Inr (needle \<in> set (map fst kvs))"
| "str_in needle PNone = Inl TypeError"
| "str_in needle (PBool b) = Inl TypeError"
| "str_in needle (PInt i) = Inl TypeError"
| "str_in needle (PFloat f) = Inl TypeError"

fun join :: "string \<Rightarrow> string list \<Rightarrow> string" where
  "join sep [] = []"
| "join sep [s] = s"
| "join sep (s # t # ss) = s @ sep @ join sep (t # ss)"

subsection \<open>async\_setup\_entry\<close>

text \<open>
  The list comprehension
  \<^verbatim>\<open>[k for k, v in status.items() if "sensor still in warm up phase" in v]\<close>:
  it raises as soon as the test raises on one item.
\<close>

fun warming_up_sensors :: "pydict \<Rightarrow> exn + string list" where
  "warming_up_sensors [] = Inr []"
| "warming_up_sensors ((k, v) # items) =
     (case str_in ''sensor still in warm up phase'' v of
        Inl e \<Rightarrow> Inl e
      | Inr warm \<Rightarrow>
          (case warming_up_sensors items of
             Inl e \<Rightarrow> Inl e
           | Inr ks \<Rightarrow> Inr (if warm then k # ks else ks)))"

datatype log_record = Debug string nat string

text \<open>
  The result is the list of entities handed to \<open>async_add_entities\<close> together with the
  debug records written, or the exception raised. \<open>DOMAIN\<close> comes from \<^verbatim>\<open>const.py\<close>
  and is a parameter.
\<close>

definition async_setup_entry ::
  "string \<Rightarrow> HomeAssistant \<Rightarrow> ConfigEntry \<Rightarrow> exn + AirQSensor list \<times> log_record list" where
  "async_setup_entry DOMAIN hass config =
     (case getitem (hass_data hass) DOMAIN of
        Inl e \<Rightarrow> Inl e
      | Inr entries \<Rightarrow>
     (case getitem entries (entry_id config) of
        Inl e \<Rightarrow> Inl e
      | Inr coord \<Rightarrow>
     (case getitem (data coord) ''Status'' of
        Inl e \<Rightarrow> Inl e
      | Inr status \<Rightarrow>
     (case (case status of
              PDict items \<Rightarrow>
                (case warming_up_sensors items of
                   Inl e \<Rightarrow> Inl e
                 | Inr warming_up \<Rightarrow>
                     Inr (map fst (data coord) @ warming_up,
                          [Debug ''Following %d sensors are warming up: %s''
                             (length warming_up) (join '', '' warming_up)]))
            | _ \<Rightarrow> Inr (map fst (data coord), [])) of
        Inl e \<Rightarrow> Inl e
      | Inr (available_keys, logged) \<Rightarrow>
          (let available_sensors =
                 filter (\<lambda>description. key description \<in> set available_keys) SENSOR_TYPES;
               entities = map (AirQSensor_init coord) available_sensors
           in Inr (entities,
                   logged @ [Debug ''Identified %d available sensors: %s''
                               (length available_sensors)
                               (join '', '' (map key available_sensors))]))))))"

section \<open>Example devices and coordinators\<close>

text \<open>Concrete inputs at which the theorems below are evaluated.\<close>

definition example_externals :: "AirQ_client \<Rightarrow> externals" where
  "example_externals client =
     \<lparr>CONF_ID = ''id'', CONF_IP_ADDRESS = ''ip_address'', CONF_SECRET = ''secret'',
      AirQ = (\<lambda>address password. Inr client),
      async_set_unique_id = (\<lambda>uid. None),
      abort_if_unique_id_configured = (\<lambda>uid. None)\<rparr>"

definition example_user_input :: pydict where
  "example_user_input = [(''ip_address'', PStr ''192.168.0.10''), (''secret'', PStr ''12345678'')]"

definition reachable_device :: AirQ_client where
  "reachable_device =
     \<lparr>test_authentication = Inr True,
      get = (\<lambda>endpoint. Inr [(''devicename'', PStr ''Kitchen''), (''id'', PStr ''0a1b2c'')])\<rparr>"

definition unreachable_device :: AirQ_client where
  "unreachable_device =
     \<lparr>test_authentication = Inl (OtherException ''aiohttp.ClientConnectionError''),
      get = (\<lambda>endpoint. Inl (OtherException ''aiohttp.ClientConnectionError''))\<rparr>"

definition wrong_secret_device :: AirQ_client where
  "wrong_secret_device =
     \<lparr>test_authentication = Inr False,
      get = (\<lambda>endpoint. Inr [(''devicename'', PStr ''Kitchen''), (''id'', PStr ''0a1b2c'')])\<rparr>"

definition cancelled_device :: AirQ_client where
  "cancelled_device =
     \<lparr>test_authentication = Inl (NonException ''asyncio.CancelledError''),
      get = (\<lambda>endpoint. Inl (NonException ''asyncio.CancelledError''))\<rparr>"

definition nameless_device :: AirQ_client where
  "nameless_device =
     \<lparr>test_authentication = Inr True,
      get = (\<lambda>endpoint. Inr [(''id'', PStr ''0a1b2c'')])\<rparr>"

definition example_hass :: "AirQCoordinator \<Rightarrow> HomeAssistant" where
  "example_hass coord = \<lparr>hass_data = [(''airq'', [(''entry-1'', coord)])]\<rparr>"

definition example_config :: ConfigEntry where
  "example_config = \<lparr>entry_id = ''entry-1''\<rparr>"

definition warming_up_coordinator :: AirQCoordinator where
  "warming_up_coordinator =
     \<lparr>data = [(''co2'', PInt 450),
              (''Status'', PDict [(''health'',
                 PStr ''health sensor still in warm up phase; waiting time = 18 s''),
                (''co'', PStr ''co sensor still in warm up phase; waiting time = 18 s'')])],
      device_id = ''0a1b2c'',
      device_info = []\<rparr>"

definition steady_coordinator :: AirQCoordinator where
  "steady_coordinator =
     \<lparr>data = [(''health'', PInt 750), (''temperature'', PFloat (Finite 21)), (''Status'', PStr ''OK'')],
      device_id = ''0a1b2c'',
      device_info = []\<rparr>"

definition statusless_coordinator :: AirQCoordinator where
  "statusless_coordinator =
     \<lparr>data = [(''health'', PInt 750), (''temperature'', PFloat (Finite 21))],
      device_id = ''0a1b2c'',
      device_info = []\<rparr>"

definition overlapping_coordinator :: AirQCoordinator where
  "overlapping_coordinator =
     \<lparr>data = [(''co'', PFloat (Finite 1)), (''temperature'', PFloat (Finite 21)),
              (''Status'', PDict [(''co'',
                 PStr ''co sensor still in warm up phase; waiting time = 18 s'')])],
      device_id = ''0a1b2c'',
      device_info = []\<rparr>"

section \<open>The setup wizard: properties\<close>

subsection \<open>What validation does, case by case\<close>

text \<open>The rendering of a name, of two numbers, of a \<open>bool\<close> and of \<open>None\<close>.\<close>

lemma py_str_examples:
  "py_str (PStr ''Kitchen'') = ''Kitchen''"
  "py_str (PInt 42) = ''42''"
  "py_str (PInt (- 7)) = ''-7''"
  "py_str (PBool True) = ''True''"
  "py_str PNone = ''None''"
  by code_simp+

lemma validate_input_InrD:
  assumes "validate_input x ui = (Inr info, calls)"
  shows "\<exists>address password client config devicename device_id.
           getitem ui (CONF_IP_ADDRESS x) = Inr address \<and>
           getitem ui (CONF_SECRET x) = Inr password \<and>
           AirQ x address password = Inr client \<and>
           test_authentication client = Inr True \<and>
           get client ''config'' = Inr config \<and>
           getitem config ''devicename'' = Inr devicename \<and>
           getitem config ''id'' = Inr device_id \<and>
           info = [(''title'', PStr (''Air-Q '' @ py_str devicename)), (''id'', device_id)] \<and>
           calls = [Authenticate, Get ''config'']"
  using assms
  unfolding validate_input_def PlaceholderHub_init_def authenticate_def
  by (auto split: sum.splits if_splits)

lemma validate_input_calls:
  "snd (validate_input x ui) = [] \<or>
   snd (validate_input x ui) = [Authenticate] \<or>
   snd (validate_input x ui) = [Authenticate, Get ''config'']"
  unfolding validate_input_def
  by (simp split: sum.splits)

lemma validate_input_GetD:
  assumes "validate_input x ui = (res, calls)" and "Get endpoint \<in> set calls"
  shows "\<exists>address password client.
           getitem ui (CONF_IP_ADDRESS x) = Inr address \<and>
           getitem ui (CONF_SECRET x) = Inr password \<and>
           AirQ x address password = Inr client \<and>
           test_authentication client = Inr True \<and>
           endpoint = ''config'' \<and>
           calls = [Authenticate, Get ''config'']"
  using assms
  unfolding validate_input_def PlaceholderHub_init_def authenticate_def
  by (auto split: sum.splits if_splits)

subsection \<open>C1: a device that cannot be reached\<close>

text \<open>
  \<open>validate_input\<close> raises \<open>CannotConnect\<close> nowhere itself: the exception can leave it
  only when the constructor of the device client or one of the two awaits on the client
  raised it.
\<close>

lemma validate_input_CannotConnectD:
  assumes "validate_input x ui = (Inl CannotConnect, calls)"
  shows "\<exists>address password.
           getitem ui (CONF_IP_ADDRESS x) = Inr address \<and>
           getitem ui (CONF_SECRET x) = Inr password \<and>
           (AirQ x address password = Inl CannotConnect \<or>
            (\<exists>client. AirQ x address password = Inr client \<and>
               (test_authentication client = Inl CannotConnect \<or>
                get client ''config'' = Inl CannotConnect)))"
  using assms
  unfolding validate_input_def PlaceholderHub_init_def authenticate_def getitem_def
  by (auto split: sum.splits if_splits option.splits)

text \<open>
  Claim C1 on the code. At a device that cannot be reached the awaited \<open>authenticate()\<close>
  raises the client library's connection error, an \<open>Exception\<close> that is neither
  \<open>CannotConnect\<close> nor \<open>InvalidAuth\<close>: \<open>async_step_user\<close> logs it and shows the form
  again with \<open>errors = {"base": "unknown"}\<close>, not with \<open>cannot_connect\<close>.
\<close>

theorem unreachable_device_reported_unknown:
  "async_step_user (example_externals unreachable_device) (Some example_user_input) =
     (Inr (async_show_form ''user''
             (STEP_USER_DATA_SCHEMA (example_externals unreachable_device))
             (Some [(''base'', ''unknown'')])),
      \<lparr>unique_id = None, events = [Authenticate, LogException ''Unexpected exception'']\<rparr>)"
  by (simp add: async_step_user_def validate_input_def PlaceholderHub_init_def authenticate_def
      example_externals_def unreachable_device_def example_user_input_def getitem_def new_flow_def)

subsection \<open>C3: authentication refused\<close>

text \<open>
  Claim C3. When the form was submitted with both fields, the client was built and its
  \<open>authenticate()\<close> returns \<open>False\<close>, then \<open>validate_input\<close> raises \<open>InvalidAuth\<close> having
  made the one call \<open>Authenticate\<close>; \<open>async_step_user\<close> shows the form again with
  \<open>errors = {"base": "invalid_auth"}\<close>, creates no entry, and no \<open>get\<close> of any endpoint
  is among the calls made.
\<close>

theorem authenticate_False_invalid_auth:
  assumes "getitem ui (CONF_IP_ADDRESS x) = Inr address"
      and "getitem ui (CONF_SECRET x) = Inr password"
      and "AirQ x address password = Inr client"
      and "test_authentication client = Inr False"
  shows "validate_input x ui = (Inl InvalidAuth, [Authenticate]) \<and>
         async_step_user x (Some ui) =
           (Inr (async_show_form ''user'' (STEP_USER_DATA_SCHEMA x)
                   (Some [(''base'', ''invalid_auth'')])),
            \<lparr>unique_id = None, events = [Authenticate]\<rparr>) \<and>
         (\<nexists>title entry_data.
            fst (async_step_user x (Some ui)) = Inr (async_create_entry title entry_data)) \<and>
         (\<nexists>endpoint. Get endpoint \<in> set (events (snd (async_step_user x (Some ui)))))"
proof -
  have v: "validate_input x ui = (Inl InvalidAuth, [Authenticate])"
    using assms
    by (simp add: validate_input_def PlaceholderHub_init_def authenticate_def)
  have s: "async_step_user x (Some ui) =
           (Inr (async_show_form ''user'' (STEP_USER_DATA_SCHEMA x)
                   (Some [(''base'', ''invalid_auth'')])),
            \<lparr>unique_id = None, events = [Authenticate]\<rparr>)"
    by (simp add: async_step_user_def v new_flow_def)
  show ?thesis
    by (simp add: v s)
qed

text \<open>The theorem at a device that refuses the submitted secret.\<close>

theorem authenticate_False_invalid_auth_witness:
  "validate_input (example_externals wrong_secret_device) example_user_input =
     (Inl InvalidAuth, [Authenticate]) \<and>
   fst (async_step_user (example_externals wrong_secret_device) (Some example_user_input)) =
     Inr (async_show_form ''user''
            (STEP_USER_DATA_SCHEMA (example_externals wrong_secret_device))
            (Some [(''base'', ''invalid_auth'')]))"
proof -
  let ?x = "example_externals wrong_secret_device"
  have a: "getitem example_user_input (CONF_IP_ADDRESS ?x) = Inr (PStr ''192.168.0.10'')"
    by (simp add: getitem_def example_user_input_def example_externals_def)
  have b: "getitem example_user_input (CONF_SECRET ?x) = Inr (PStr ''12345678'')"
    by (simp add: getitem_def example_user_input_def example_externals_def)
  have c: "AirQ ?x (PStr ''192.168.0.10'') (PStr ''12345678'') = Inr wrong_secret_device"
    by (simp add: example_externals_def)
  have d: "test_authentication wrong_secret_device = Inr False"
    by (simp add: wrong_secret_device_def)
  show ?thesis
    using authenticate_False_invalid_auth [OF a b c d] by simp
qed

subsection \<open>C4: unexpected exceptions\<close>

text \<open>
  Claim C4 as stated, for every exception other than \<open>CannotConnect\<close> and \<open>InvalidAuth\<close>,
  fails on an exception that is not an instance of \<open>Exception\<close>: when the awaited
  \<open>authenticate()\<close> raises \<open>asyncio.CancelledError\<close>, no \<^verbatim>\<open>except\<close> clause of
  \<open>async_step_user\<close> matches and the exception leaves the step; no form is shown and
  nothing is logged.
\<close>

theorem cancelled_validation_propagates:
  "validate_input (example_externals cancelled_device) example_user_input =
     (Inl (NonException ''asyncio.CancelledError''), [Authenticate]) \<and>
   NonException ''asyncio.CancelledError'' \<noteq> CannotConnect \<and>
   NonException ''asyncio.CancelledError'' \<noteq> InvalidAuth \<and>
   async_step_user (example_externals cancelled_device) (Some example_user_input) =
     (Inl (NonException ''asyncio.CancelledError''),
      \<lparr>unique_id = None, events = [Authenticate]\<rparr>)"
  by (simp add: async_step_user_def validate_input_def PlaceholderHub_init_def authenticate_def
      example_externals_def cancelled_device_def example_user_input_def getitem_def new_flow_def)

text \<open>
  Claim C4 amended. Let validation raise an exception \<open>e\<close> that is neither
  \<open>CannotConnect\<close> nor \<open>InvalidAuth\<close>. If \<open>e\<close> is an instance of \<open>Exception\<close>,
  \<open>async_step_user\<close> returns normally: it logs \<open>"Unexpected exception"\<close> after the calls
  validation made and shows the form again with \<open>errors = {"base": "unknown"}\<close>. If \<open>e\<close>
  derives from \<open>BaseException\<close> only, \<open>e\<close> leaves the step and nothing is logged. Either
  way no entry is created and nothing is retried: the device client was asked to
  authenticate at most once and each endpoint was fetched at most once.
\<close>

theorem unexpected_Exception_reported_unknown:
  assumes "validate_input x ui = (Inl e, calls)"
      and "e \<noteq> CannotConnect" and "e \<noteq> InvalidAuth"
  shows "async_step_user x (Some ui) =
           (if is_Exception e
            then (Inr (async_show_form ''user'' (STEP_USER_DATA_SCHEMA x)
                         (Some [(''base'', ''unknown'')])),
                  \<lparr>unique_id = None,
                   events = calls @ [LogException ''Unexpected exception'']\<rparr>)
            else (Inl e, \<lparr>unique_id = None, events = calls\<rparr>)) \<and>
         (\<nexists>title entry_data.
            fst (async_step_user x (Some ui)) = Inr (async_create_entry title entry_data)) \<and>
         count_list calls Authenticate \<le> 1 \<and>
         (\<forall>endpoint. count_list calls (Get endpoint) \<le> 1)"
proof -
  have s: "async_step_user x (Some ui) =
           (if is_Exception e
            then (Inr (async_show_form ''user'' (STEP_USER_DATA_SCHEMA x)
                         (Some [(''base'', ''unknown'')])),
                  \<lparr>unique_id = None,
                   events = calls @ [LogException ''Unexpected exception'']\<rparr>)
            else (Inl e, \<lparr>unique_id = None, events = calls\<rparr>))"
    using assms by (simp add: async_step_user_def new_flow_def)
  have "calls = [] \<or> calls = [Authenticate] \<or> calls = [Authenticate, Get ''config'']"
    using validate_input_calls [of x ui] assms(1) by simp
  then have c: "count_list calls Authenticate \<le> 1 \<and>
                (\<forall>endpoint. count_list calls (Get endpoint) \<le> 1)"
    by auto
  show ?thesis
    using c by (simp add: s)
qed

text \<open>
  The theorem at a device whose configuration has no \<open>devicename\<close>: the \<open>KeyError\<close> of
  \<^verbatim>\<open>config['devicename']\<close> is reported as \<open>unknown\<close>.
\<close>

theorem unexpected_Exception_reported_unknown_witness:
  "async_step_user (example_externals nameless_device) (Some example_user_input) =
     (Inr (async_show_form ''user''
             (STEP_USER_DATA_SCHEMA (example_externals nameless_device))
             (Some [(''base'', ''unknown'')])),
      \<lparr>unique_id = None,
       events = [Authenticate, Get ''config'', LogException ''Unexpected exception'']\<rparr>)"
proof -
  let ?x = "example_externals nameless_device"
  have v: "validate_input ?x example_user_input =
             (Inl (KeyError ''devicename''), [Authenticate, Get ''config''])"
    by (simp add: validate_input_def PlaceholderHub_init_def authenticate_def
        example_externals_def nameless_device_def example_user_input_def getitem_def)
  have "KeyError ''devicename'' \<noteq> CannotConnect" and "KeyError ''devicename'' \<noteq> InvalidAuth"
    by simp_all
  from unexpected_Exception_reported_unknown [OF v this]
  show ?thesis by simp
qed

text \<open>
  Once the form holds both fields and the client is built, \<open>validate_input\<close> is this
  sequence: authenticate, then fetch \<open>config\<close>, then read \<open>devicename\<close> and \<open>id\<close>.
\<close>

lemma validate_input_at_client:
  assumes "getitem ui (CONF_IP_ADDRESS x) = Inr address"
      and "getitem ui (CONF_SECRET x) = Inr password"
      and "AirQ x address password = Inr client"
  shows "validate_input x ui =
           (case test_authentication client of
              Inl e \<Rightarrow> (Inl e, [Authenticate])
            | Inr ok \<Rightarrow>
                if \<not> ok then (Inl InvalidAuth, [Authenticate])
                else
                  (case get client ''config'' of
                     Inl e \<Rightarrow> (Inl e, [Authenticate, Get ''config''])
                   | Inr config \<Rightarrow>
                       (case getitem config ''devicename'' of
                          Inl e \<Rightarrow> (Inl e, [Authenticate, Get ''config''])
                        | Inr devicename \<Rightarrow>
                            (case getitem config ''id'' of
                               Inl e \<Rightarrow> (Inl e, [Authenticate, Get ''config''])
                             | Inr dev_id \<Rightarrow>
                                 (Inr [(''title'', PStr (''Air-Q '' @ py_str devicename)),
                                       (''id'', dev_id)],
                                  [Authenticate, Get ''config''])))))"
  using assms
  by (simp add: validate_input_def PlaceholderHub_init_def authenticate_def
      split: sum.splits)

text \<open>
  Where \<open>CONF_ID\<close> is \<open>"id"\<close>, this is what the step does with the dictionary
  \<open>validate_input\<close> returned.
\<close>

lemma async_step_user_after_validation:
  assumes "validate_input x ui =
             (Inr [(''title'', title), (''id'', uid)], calls)"
      and "CONF_ID x = ''id''"
  shows "async_step_user x (Some ui) =
           (case async_set_unique_id x uid of
              Some e \<Rightarrow> (Inl e, \<lparr>unique_id = None, events = calls @ [SetUniqueId uid]\<rparr>)
            | None \<Rightarrow>
                (case abort_if_unique_id_configured x uid of
                   Some e \<Rightarrow>
                     (Inl e, \<lparr>unique_id = Some uid,
                              events = calls @ [SetUniqueId uid,
                                                AbortIfUniqueIdConfigured]\<rparr>)
                 | None \<Rightarrow>
                     (Inr (async_create_entry title ui),
                      \<lparr>unique_id = Some uid,
                       events = calls @ [SetUniqueId uid,
                                         AbortIfUniqueIdConfigured]\<rparr>)))"
  using assms
  by (simp add: async_step_user_def getitem_def new_flow_def split: option.splits)

subsection \<open>C7: validation is a linear sequence\<close>

text \<open>
  Claim C7, for any run of \<open>validate_input\<close> with its result \<open>res\<close> and the calls it made
  on the device client. The calls are a prefix of \<open>authenticate, get("config")\<close>, and an
  endpoint is fetched only if it is \<open>config\<close> and \<open>authenticate()\<close> returned \<open>True\<close>.
  Forward, once the form holds both fields and the client is built: \<open>authenticate()\<close> is
  the first call; when it raises or returns \<open>False\<close> it is the only call and the result is
  that exception or \<open>InvalidAuth\<close>; when it returns \<open>True\<close>, \<open>get("config")\<close> is the second
  and last call, and a configuration with \<open>devicename\<close> and \<open>id\<close> gives the result
  \<open>{"title": "Air-Q " + str(devicename), "id": id}\<close>, that is \<open>"Air-Q "\<close> followed by the
  reported name when the name is a string. Where \<open>CONF_ID\<close> is \<open>"id"\<close>, the step then
  passes that \<open>id\<close> to \<open>async_set_unique_id\<close>, and unless one of the two framework calls
  ends the flow it creates the entry with that title and that unique id. Backward, a
  returned dictionary always comes from such a run.
\<close>

theorem validate_input_linear:
  assumes "validate_input x ui = (res, calls)"
  shows "(calls = [] \<or> calls = [Authenticate] \<or> calls = [Authenticate, Get ''config'']) \<and>
         (\<forall>endpoint. Get endpoint \<in> set calls \<longrightarrow>
            endpoint = ''config'' \<and>
            (\<exists>address password client.
               getitem ui (CONF_IP_ADDRESS x) = Inr address \<and>
               getitem ui (CONF_SECRET x) = Inr password \<and>
               AirQ x address password = Inr client \<and>
               test_authentication client = Inr True)) \<and>
         (\<forall>address password client.
            getitem ui (CONF_IP_ADDRESS x) = Inr address \<and>
            getitem ui (CONF_SECRET x) = Inr password \<and>
            AirQ x address password = Inr client \<longrightarrow>
              (\<exists>later. calls = Authenticate # later) \<and>
              (\<forall>e. test_authentication client = Inl e \<longrightarrow>
                 res = Inl e \<and> calls = [Authenticate]) \<and>
              (test_authentication client = Inr False \<longrightarrow>
                 res = Inl InvalidAuth \<and> calls = [Authenticate]) \<and>
              (test_authentication client = Inr True \<longrightarrow>
                 calls = [Authenticate, Get ''config''] \<and>
                 (\<forall>e. get client ''config'' = Inl e \<longrightarrow> res = Inl e) \<and>
                 (\<forall>config devicename device_id.
                    get client ''config'' = Inr config \<and>
                    getitem config ''devicename'' = Inr devicename \<and>
                    getitem config ''id'' = Inr device_id \<longrightarrow>
                      res = Inr [(''title'', PStr (''Air-Q '' @ py_str devicename)),
                                 (''id'', device_id)] \<and>
                      (\<forall>reported. devicename = PStr reported \<longrightarrow>
                         res = Inr [(''title'', PStr (''Air-Q '' @ reported)),
                                    (''id'', device_id)]) \<and>
                      (CONF_ID x = ''id'' \<longrightarrow>
                         (\<exists>rest. events (snd (async_step_user x (Some ui))) =
                                   calls @ SetUniqueId device_id # rest) \<and>
                         (async_set_unique_id x device_id = None \<and>
                          abort_if_unique_id_configured x device_id = None \<longrightarrow>
                            async_step_user x (Some ui) =
                              (Inr (async_create_entry
                                      (PStr (''Air-Q '' @ py_str devicename)) ui),
                               \<lparr>unique_id = Some device_id,
                                events = calls @ [SetUniqueId device_id,
                                                  AbortIfUniqueIdConfigured]\<rparr>)))))) \<and>
         (\<forall>info. res = Inr info \<longrightarrow>
            (\<exists>address password client config devicename device_id.
               getitem ui (CONF_IP_ADDRESS x) = Inr address \<and>
               getitem ui (CONF_SECRET x) = Inr password \<and>
               AirQ x address password = Inr client \<and>
               test_authentication client = Inr True \<and>
               get client ''config'' = Inr config \<and>
               getitem config ''devicename'' = Inr devicename \<and>
               getitem config ''id'' = Inr device_id \<and>
               info = [(''title'', PStr (''Air-Q '' @ py_str devicename)),
                       (''id'', device_id)]))"
proof (intro conjI)
  show "calls = [] \<or> calls = [Authenticate] \<or> calls = [Authenticate, Get ''config'']"
    using validate_input_calls [of x ui] assms by simp
next
  show "\<forall>endpoint. Get endpoint \<in> set calls \<longrightarrow>
            endpoint = ''config'' \<and>
            (\<exists>address password client.
               getitem ui (CONF_IP_ADDRESS x) = Inr address \<and>
               getitem ui (CONF_SECRET x) = Inr password \<and>
               AirQ x address password = Inr client \<and>
               test_authentication client = Inr True)"
    using validate_input_GetD [OF assms] by blast
next
  show "\<forall>info. res = Inr info \<longrightarrow>
            (\<exists>address password client config devicename device_id.
               getitem ui (CONF_IP_ADDRESS x) = Inr address \<and>
               getitem ui (CONF_SECRET x) = Inr password \<and>
               AirQ x address password = Inr client \<and>
               test_authentication client = Inr True \<and>
               get client ''config'' = Inr config \<and>
               getitem config ''devicename'' = Inr devicename \<and>
               getitem config ''id'' = Inr device_id \<and>
               info = [(''title'', PStr (''Air-Q '' @ py_str devicename)),
                       (''id'', device_id)])"
  proof (intro allI impI)
    fix info assume "res = Inr info"
    with assms have "validate_input x ui = (Inr info, calls)" by simp
    from validate_input_InrD [OF this]
    show "\<exists>address password client config devicename device_id.
               getitem ui (CONF_IP_ADDRESS x) = Inr address \<and>
               getitem ui (CONF_SECRET x) = Inr password \<and>
               AirQ x address password = Inr client \<and>
               test_authentication client = Inr True \<and>
               get client ''config'' = Inr config \<and>
               getitem config ''devicename'' = Inr devicename \<and>
               getitem config ''id'' = Inr device_id \<and>
               info = [(''title'', PStr (''Air-Q '' @ py_str devicename)),
                       (''id'', device_id)]"
      by blast
  qed
next
  show "\<forall>address password client.
            getitem ui (CONF_IP_ADDRESS x) = Inr address \<and>
            getitem ui (CONF_SECRET x) = Inr password \<and>
            AirQ x address password = Inr client \<longrightarrow>
              (\<exists>later. calls = Authenticate # later) \<and>
              (\<forall>e. test_authentication client = Inl e \<longrightarrow>
                 res = Inl e \<and> calls = [Authenticate]) \<and>
              (test_authentication client = Inr False \<longrightarrow>
                 res = Inl InvalidAuth \<and> calls = [Authenticate]) \<and>
              (test_authentication client = Inr True \<longrightarrow>
                 calls = [Authenticate, Get ''config''] \<and>
                 (\<forall>e. get client ''config'' = Inl e \<longrightarrow> res = Inl e) \<and>
                 (\<forall>config devicename device_id.
                    get client ''config'' = Inr config \<and>
                    getitem config ''devicename'' = Inr devicename \<and>
                    getitem config ''id'' = Inr device_id \<longrightarrow>
                      res = Inr [(''title'', PStr (''Air-Q '' @ py_str devicename)),
                                 (''id'', device_id)] \<and>
                      (\<forall>reported. devicename = PStr reported \<longrightarrow>
                         res = Inr [(''title'', PStr (''Air-Q '' @ reported)),
                                    (''id'', device_id)]) \<and>
                      (CONF_ID x = ''id'' \<longrightarrow>
                         (\<exists>rest. events (snd (async_step_user x (Some ui))) =
                                   calls @ SetUniqueId device_id # rest) \<and>
                         (async_set_unique_id x device_id = None \<and>
                          abort_if_unique_id_configured x device_id = None \<longrightarrow>
                            async_step_user x (Some ui) =
                              (Inr (async_create_entry
                                      (PStr (''Air-Q '' @ py_str devicename)) ui),
                               \<lparr>unique_id = Some device_id,
                                events = calls @ [SetUniqueId device_id,
                                                  AbortIfUniqueIdConfigured]\<rparr>)))))"
  proof (intro allI impI, elim conjE)
    fix address password client
    assume f: "getitem ui (CONF_IP_ADDRESS x) = Inr address"
      "getitem ui (CONF_SECRET x) = Inr password"
      "AirQ x address password = Inr client"
    note v = validate_input_at_client [OF f, unfolded assms]
    have 1: "\<exists>later. calls = Authenticate # later"
      using v by (auto split: sum.splits if_splits)
    have 2: "\<forall>e. test_authentication client = Inl e \<longrightarrow> res = Inl e \<and> calls = [Authenticate]"
      using v by auto
    have 3: "test_authentication client = Inr False \<longrightarrow>
               res = Inl InvalidAuth \<and> calls = [Authenticate]"
      using v by auto
    have 4: "test_authentication client = Inr True \<longrightarrow>
                 calls = [Authenticate, Get ''config''] \<and>
                 (\<forall>e. get client ''config'' = Inl e \<longrightarrow> res = Inl e) \<and>
                 (\<forall>config devicename device_id.
                    get client ''config'' = Inr config \<and>
                    getitem config ''devicename'' = Inr devicename \<and>
                    getitem config ''id'' = Inr device_id \<longrightarrow>
                      res = Inr [(''title'', PStr (''Air-Q '' @ py_str devicename)),
                                 (''id'', device_id)] \<and>
                      (\<forall>reported. devicename = PStr reported \<longrightarrow>
                         res = Inr [(''title'', PStr (''Air-Q '' @ reported)),
                                    (''id'', device_id)]) \<and>
                      (CONF_ID x = ''id'' \<longrightarrow>
                         (\<exists>rest. events (snd (async_step_user x (Some ui))) =
                                   calls @ SetUniqueId device_id # rest) \<and>
                         (async_set_unique_id x device_id = None \<and>
                          abort_if_unique_id_configured x device_id = None \<longrightarrow>
                            async_step_user x (Some ui) =
                              (Inr (async_create_entry
                                      (PStr (''Air-Q '' @ py_str devicename)) ui),
                               \<lparr>unique_id = Some device_id,
                                events = calls @ [SetUniqueId device_id,
                                                  AbortIfUniqueIdConfigured]\<rparr>))))"
    proof (intro impI conjI allI)
      assume t: "test_authentication client = Inr True"
      show "calls = [Authenticate, Get ''config'']"
        using v t by (auto split: sum.splits)
      show "res = Inl e" if "get client ''config'' = Inl e" for e
        using v t that by auto
    next
      fix config devicename device_id
      assume t: "test_authentication client = Inr True"
        and g: "get client ''config'' = Inr config \<and>
                getitem config ''devicename'' = Inr devicename \<and>
                getitem config ''id'' = Inr device_id"
      from v t g have r: "res = Inr [(''title'', PStr (''Air-Q '' @ py_str devicename)),
                                 (''id'', device_id)]"
        and c: "calls = [Authenticate, Get ''config'']"
        by auto
      show "res = Inr [(''title'', PStr (''Air-Q '' @ py_str devicename)), (''id'', device_id)]"
        by (rule r)
      show "res = Inr [(''title'', PStr (''Air-Q '' @ reported)), (''id'', device_id)]"
        if "devicename = PStr reported" for reported
        using r that by simp
      assume i: "CONF_ID x = ''id''"
      note s = async_step_user_after_validation [OF assms [unfolded r] i]
      show "\<exists>rest. events (snd (async_step_user x (Some ui))) =
                                   calls @ SetUniqueId device_id # rest"
        unfolding s by (simp split: option.splits)
      show "async_step_user x (Some ui) =
              (Inr (async_create_entry (PStr (''Air-Q '' @ py_str devicename)) ui),
               \<lparr>unique_id = Some device_id,
                events = calls @ [SetUniqueId device_id, AbortIfUniqueIdConfigured]\<rparr>)"
        if "async_set_unique_id x device_id = None \<and>
            abort_if_unique_id_configured x device_id = None"
        unfolding s using that by simp
    qed
    from 1 2 3 4 show "(\<exists>later. calls = Authenticate # later) \<and>
              (\<forall>e. test_authentication client = Inl e \<longrightarrow>
                 res = Inl e \<and> calls = [Authenticate]) \<and>
              (test_authentication client = Inr False \<longrightarrow>
                 res = Inl InvalidAuth \<and> calls = [Authenticate]) \<and>
              (test_authentication client = Inr True \<longrightarrow>
                 calls = [Authenticate, Get ''config''] \<and>
                 (\<forall>e. get client ''config'' = Inl e \<longrightarrow> res = Inl e) \<and>
                 (\<forall>config devicename device_id.
                    get client ''config'' = Inr config \<and>
                    getitem config ''devicename'' = Inr devicename \<and>
                    getitem config ''id'' = Inr device_id \<longrightarrow>
                      res = Inr [(''title'', PStr (''Air-Q '' @ py_str devicename)),
                                 (''id'', device_id)] \<and>
                      (\<forall>reported. devicename = PStr reported \<longrightarrow>
                         res = Inr [(''title'', PStr (''Air-Q '' @ reported)),
                                    (''id'', device_id)]) \<and>
                      (CONF_ID x = ''id'' \<longrightarrow>
                         (\<exists>rest. events (snd (async_step_user x (Some ui))) =
                                   calls @ SetUniqueId device_id # rest) \<and>
                         (async_set_unique_id x device_id = None \<and>
                          abort_if_unique_id_configured x device_id = None \<longrightarrow>
                            async_step_user x (Some ui) =
                              (Inr (async_create_entry
                                      (PStr (''Air-Q '' @ py_str devicename)) ui),
                               \<lparr>unique_id = Some device_id,
                                events = calls @ [SetUniqueId device_id,
                                                  AbortIfUniqueIdConfigured]\<rparr>)))))"
      by (intro conjI)
  qed
qed

text \<open>
  The theorem at a device that accepts the secret and reports its configuration: both the
  result of validation and the created entry are derived from it.
\<close>

theorem validate_input_linear_witness:
  "validate_input (example_externals reachable_device) example_user_input =
     (Inr [(''title'', PStr ''Air-Q Kitchen''), (''id'', PStr ''0a1b2c'')],
      [Authenticate, Get ''config'']) \<and>
   async_step_user (example_externals reachable_device) (Some example_user_input) =
     (Inr (async_create_entry (PStr ''Air-Q Kitchen'') example_user_input),
      \<lparr>unique_id = Some (PStr ''0a1b2c''),
       events = [Authenticate, Get ''config'', SetUniqueId (PStr ''0a1b2c''),
                 AbortIfUniqueIdConfigured]\<rparr>)"
proof -
  let ?x = "example_externals reachable_device"
  obtain res calls where v: "validate_input ?x example_user_input = (res, calls)"
    by (cases "validate_input ?x example_user_input")
  have a: "getitem example_user_input (CONF_IP_ADDRESS ?x) = Inr (PStr ''192.168.0.10'')"
    by (simp add: getitem_def example_user_input_def example_externals_def)
  have b: "getitem example_user_input (CONF_SECRET ?x) = Inr (PStr ''12345678'')"
    by (simp add: getitem_def example_user_input_def example_externals_def)
  have c: "AirQ ?x (PStr ''192.168.0.10'') (PStr ''12345678'') = Inr reachable_device"
    by (simp add: example_externals_def)
  have t: "test_authentication reachable_device = Inr True"
    by (simp add: reachable_device_def)
  have g: "get reachable_device ''config'' =
             Inr [(''devicename'', PStr ''Kitchen''), (''id'', PStr ''0a1b2c'')] \<and>
           getitem [(''devicename'', PStr ''Kitchen''), (''id'', PStr ''0a1b2c'')] ''devicename'' =
             Inr (PStr ''Kitchen'') \<and>
           getitem [(''devicename'', PStr ''Kitchen''), (''id'', PStr ''0a1b2c'')] ''id'' =
             Inr (PStr ''0a1b2c'')"
    by (simp add: reachable_device_def getitem_def)
  have i: "CONF_ID ?x = ''id''"
    by (simp add: example_externals_def)
  have u: "async_set_unique_id ?x (PStr ''0a1b2c'') = None \<and>
           abort_if_unique_id_configured ?x (PStr ''0a1b2c'') = None"
    by (simp add: example_externals_def)
  from validate_input_linear [OF v] a b c t
  have 1: "calls = [Authenticate, Get ''config'']"
    by blast
  from validate_input_linear [OF v] a b c t g
  have 2: "res = Inr [(''title'', PStr (''Air-Q '' @ ''Kitchen'')), (''id'', PStr ''0a1b2c'')]"
    by blast
  from validate_input_linear [OF v] a b c t g i u
  have 3: "async_step_user ?x (Some example_user_input) =
     (Inr (async_create_entry (PStr (''Air-Q '' @ py_str (PStr ''Kitchen''))) example_user_input),
      \<lparr>unique_id = Some (PStr ''0a1b2c''),
       events = calls @ [SetUniqueId (PStr ''0a1b2c''), AbortIfUniqueIdConfigured]\<rparr>)"
    by blast
  from v 1 2 3 show ?thesis by simp
qed

subsection \<open>C8: the created entry\<close>

text \<open>
  Claim C8. Whenever \<open>async_step_user\<close> returns \<open>async_create_entry(title, data)\<close>, the
  form was submitted and \<open>data\<close> is the submitted dictionary itself, unchanged; \<open>title\<close> is
  the \<open>"Air-Q ..."\<close> title \<open>validate_input\<close> returned, and the flow's unique id is the
  value of that result at \<open>CONF_ID\<close>.
\<close>

theorem created_entry_keeps_user_input:
  assumes "async_step_user x user_input = (Inr (async_create_entry title entry_data), fl)"
  shows "user_input = Some entry_data \<and>
         (\<exists>info calls uid devicename.
            validate_input x entry_data = (Inr info, calls) \<and>
            getitem info ''title'' = Inr title \<and>
            title = PStr (''Air-Q '' @ py_str devicename) \<and>
            getitem info (CONF_ID x) = Inr uid \<and>
            unique_id fl = Some uid)"
proof (cases user_input)
  case None
  with assms show ?thesis
    by (simp add: async_step_user_def)
next
  case (Some ui)
  obtain res calls where v: "validate_input x ui = (res, calls)"
    by (cases "validate_input x ui")
  show ?thesis
  proof (cases res)
    case (Inl e)
    with assms Some v show ?thesis
      by (simp add: async_step_user_def split: if_splits)
  next
    case (Inr info)
    with v have vi: "validate_input x ui = (Inr info, calls)" by simp
    from validate_input_InrD [OF vi] obtain devicename device_id where
      i: "info = [(''title'', PStr (''Air-Q '' @ py_str devicename)), (''id'', device_id)]"
      by blast
    have t: "getitem info ''title'' = Inr (PStr (''Air-Q '' @ py_str devicename))"
      by (simp add: i getitem_def)
    from assms Some vi t
    have "entry_data = ui \<and> title = PStr (''Air-Q '' @ py_str devicename) \<and>
          (\<exists>uid. getitem info (CONF_ID x) = Inr uid \<and> unique_id fl = Some uid)"
      by (auto simp: async_step_user_def split: sum.splits option.splits)
    with Some vi t show ?thesis
      by auto
  qed
qed

text \<open>The theorem at a successful run of the wizard.\<close>

theorem created_entry_keeps_user_input_witness:
  "\<exists>info calls uid devicename.
      validate_input (example_externals reachable_device) example_user_input =
        (Inr info, calls) \<and>
      getitem info ''title'' = Inr (PStr ''Air-Q Kitchen'') \<and>
      PStr ''Air-Q Kitchen'' =
        PStr (''Air-Q '' @ py_str devicename) \<and>
      getitem info (CONF_ID (example_externals reachable_device)) = Inr uid \<and>
      Some (PStr ''0a1b2c'') = Some uid"
proof -
  have s: "async_step_user (example_externals reachable_device) (Some example_user_input) =
     (Inr (async_create_entry (PStr ''Air-Q Kitchen'') example_user_input),
      \<lparr>unique_id = Some (PStr ''0a1b2c''),
       events = [Authenticate, Get ''config'', SetUniqueId (PStr ''0a1b2c''),
                 AbortIfUniqueIdConfigured]\<rparr>)"
    by (simp add: async_step_user_def validate_input_def PlaceholderHub_init_def
        authenticate_def example_externals_def reachable_device_def
        example_user_input_def getitem_def)
  from created_entry_keeps_user_input [OF s] show ?thesis
    by simp
qed

section \<open>The sensor platform: properties\<close>

subsection \<open>Float arithmetic\<close>

text \<open>
  The rounding is what binary64 arithmetic asks for: \<open>floor_log2\<close> is the binary exponent,
  the rounded value is within half a unit in the last place of the exact one, a binary64
  number rounds to itself, and an \<open>int\<close> of magnitude \<open>2^1024\<close> or more does not convert.
\<close>

lemma pow2_powi: "pow2 k = 2 powi k"
  by (simp add: pow2_def power_int_def inverse_eq_divide power_one_over)

lemma pow2_pos: "0 < pow2 k"
  by (simp add: pow2_powi)

lemma pow2_add: "pow2 (a + b) = pow2 a * pow2 b"
  by (simp add: pow2_powi power_int_add)

lemma pow2_less_iff: "pow2 a < pow2 b \<longleftrightarrow> a < b"
proof
  assume l: "pow2 a < pow2 b"
  show "a < b"
  proof (rule ccontr)
    assume "\<not> a < b"
    then have "b \<le> a" by simp
    then have "pow2 b \<le> pow2 a"
      unfolding pow2_powi by (rule power_int_increasing) simp
    with l show False by simp
  qed
next
  assume "a < b"
  then show "pow2 a < pow2 b"
    unfolding pow2_powi by (rule power_int_strict_increasing) simp
qed

lemma pow2_le_iff: "pow2 a \<le> pow2 b \<longleftrightarrow> a \<le> b"
  using pow2_less_iff [of b a] by (simp add: not_less [symmetric])

lemma bit_length_bounds:
  "0 < n \<Longrightarrow> 1 \<le> bit_length n \<and> 2 ^ nat (bit_length n - 1) \<le> n \<and> n < 2 ^ nat (bit_length n)"
proof (induction n rule: bit_length.induct)
  case (1 n)
  from "1.prems" have b: "bit_length n = 1 + bit_length (n div 2)"
    by (simp add: bit_length.simps [of n])
  show ?case
  proof (cases "n div 2 = 0")
    case True
    with "1.prems" have "n = 1" by presburger
    then show ?thesis
      by (simp add: bit_length.simps [of 1] bit_length.simps [of 0])
  next
    case False
    with "1.prems" have m: "0 < n div 2" by presburger
    from "1.IH" [OF _ m] "1.prems"
    have ih: "1 \<le> bit_length (n div 2)"
      "2 ^ nat (bit_length (n div 2) - 1) \<le> n div 2"
      "n div 2 < 2 ^ nat (bit_length (n div 2))"
      by simp_all
    define c where "c = bit_length (n div 2)"
    from ih(1) have e1: "nat (1 + c - 1) = Suc (nat (c - 1))" and e2: "nat (1 + c) = Suc (nat c)"
      unfolding c_def by simp_all
    have "2 * 2 ^ nat (c - 1) \<le> 2 * (n div 2)"
      using ih(2) unfolding c_def by simp
    also have "\<dots> \<le> n" by presburger
    finally have l: "(2::int) ^ nat (1 + c - 1) \<le> n"
      unfolding e1 by simp
    have "n < 2 * (n div 2 + 1)" by presburger
    also have "\<dots> \<le> 2 * 2 ^ nat c"
      using ih(3) unfolding c_def by simp
    finally have u: "n < 2 ^ nat (1 + c)"
      unfolding e2 by simp
    from ih(1) l u show ?thesis
      unfolding b c_def by simp
  qed
qed

lemma of_int_bit_length_bounds:
  assumes "0 < n"
  shows "pow2 (bit_length n - 1) \<le> of_int n" and "of_int n < pow2 (bit_length n)"
proof -
  from bit_length_bounds [OF assms]
  have b: "1 \<le> bit_length n" and l: "2 ^ nat (bit_length n - 1) \<le> n"
    and u: "n < 2 ^ nat (bit_length n)"
    by simp_all
  have "(of_int (2 ^ nat (bit_length n - 1)) :: rat) \<le> of_int n"
    using l by (simp only: of_int_le_iff)
  with b show "pow2 (bit_length n - 1) \<le> of_int n"
    by (simp add: pow2_def)
  have "(of_int n :: rat) < of_int (2 ^ nat (bit_length n))"
    using u by (simp only: of_int_less_iff)
  with b show "of_int n < pow2 (bit_length n)"
    by (simp add: pow2_def)
qed

lemma floor_log2_bounds:
  assumes "0 < q"
  shows "pow2 (floor_log2 q) \<le> q" and "q < pow2 (floor_log2 q + 1)"
proof -
  obtain n d where nd: "quotient_of q = (n, d)"
    by (cases "quotient_of q")
  have d: "0 < d"
    using quotient_of_denom_pos [OF nd] .
  have q: "q = of_int n / of_int d"
    using quotient_of_div [OF nd] .
  have n: "0 < n"
    using assms d unfolding q by (simp add: zero_less_divide_iff)
  define e where "e = bit_length n - bit_length d"
  have f: "floor_log2 q = (if pow2 e \<le> q then e else e - 1)"
    by (simp add: floor_log2_def nd e_def Let_def)
  note bn = of_int_bit_length_bounds [OF n] and bd = of_int_bit_length_bounds [OF d]
  have dpos: "(0::rat) < of_int d" using d by simp
  have "pow2 (e - 1) * of_int d < pow2 (e - 1) * pow2 (bit_length d)"
    using bd(2) pow2_pos by simp
  also have "\<dots> = pow2 (bit_length n - 1)"
    unfolding pow2_add [symmetric] e_def by simp
  also have "\<dots> \<le> of_int n" by (rule bn(1))
  finally have lo: "pow2 (e - 1) < q"
    unfolding q using dpos by (simp add: pos_less_divide_eq)
  have "of_int n < pow2 (bit_length n)" by (rule bn(2))
  also have "\<dots> = pow2 (e + 1) * pow2 (bit_length d - 1)"
    unfolding pow2_add [symmetric] e_def by simp
  also have "\<dots> \<le> pow2 (e + 1) * of_int d"
    using bd(1) pow2_pos by simp
  finally have hi: "q < pow2 (e + 1)"
    unfolding q using dpos by (simp add: pos_divide_less_eq)
  show "pow2 (floor_log2 q) \<le> q"
    using lo unfolding f by simp
  show "q < pow2 (floor_log2 q + 1)"
    using hi unfolding f by (simp add: not_le)
qed

lemma floor_le_round_half_even: "\<lfloor>y\<rfloor> \<le> round_half_even y"
  by (simp add: round_half_even_def Let_def)



lemma round_positive_overflow:
  assumes "pow2 1024 \<le> q"
  shows "pow2 1024 \<le> round_positive q"
proof -
  have q: "0 < q" using assms pow2_pos [of 1024] by linarith
  note b = floor_log2_bounds [OF q]
  from assms b(2) have "pow2 1024 < pow2 (floor_log2 q + 1)" by linarith
  then have e: "1024 \<le> floor_log2 q"
    by (simp add: pow2_less_iff)
  then have m: "max (floor_log2 q) (- 1022) = floor_log2 q" by simp
  define ulp where "ulp = pow2 (floor_log2 q - 52)"
  have u: "0 < ulp" unfolding ulp_def by (rule pow2_pos)
  have r: "round_positive q = of_int (round_half_even (q / ulp)) * ulp"
    by (simp add: round_positive_def Let_def ulp_def m)
  have s: "pow2 (floor_log2 q) = 2 ^ 52 * ulp"
    unfolding ulp_def using pow2_add [of 52 "floor_log2 q - 52"] by (simp add: pow2_def [of 52])
  have "(2::rat) ^ 52 \<le> q / ulp"
    using b(1) u unfolding s by (simp add: pos_le_divide_eq)
  then have "(of_int (2 ^ 52) :: rat) \<le> q / ulp" by simp
  then have "(2::int) ^ 52 \<le> \<lfloor>q / ulp\<rfloor>"
    by (simp only: le_floor_iff)
  with floor_le_round_half_even [of "q / ulp"]
  have "(2::int) ^ 52 \<le> round_half_even (q / ulp)" by linarith
  then have "(of_int (2 ^ 52) :: rat) \<le> of_int (round_half_even (q / ulp))"
    by (simp only: of_int_le_iff)
  then have "2 ^ 52 * ulp \<le> of_int (round_half_even (q / ulp)) * ulp"
    using u by (simp only: mult_right_mono less_imp_le of_int_power of_int_numeral)
  then have "pow2 (floor_log2 q) \<le> round_positive q"
    unfolding r s .
  moreover have "pow2 1024 \<le> pow2 (floor_log2 q)"
    using e by (simp add: pow2_le_iff)
  ultimately show ?thesis by linarith
qed

lemma round_binary64_minus: "round_binary64 (- q) = - round_binary64 q"
  by (simp add: round_binary64_def)

lemma int_to_float_overflow:
  assumes "2 ^ 1024 \<le> \<bar>i\<bar>"
  shows "int_to_float i = Inl OverflowError"
proof -
  have "(of_int (2 ^ 1024) :: rat) \<le> of_int \<bar>i\<bar>"
    using assms by (simp only: of_int_le_iff)
  then have p: "pow2 1024 \<le> \<bar>of_int i\<bar>"
    by (simp add: pow2_def)
  then have r: "pow2 1024 \<le> round_positive \<bar>of_int i\<bar>"
    by (rule round_positive_overflow)
  have z: "(of_int i :: rat) \<noteq> 0"
    using p pow2_pos [of 1024] by auto
  have "round_binary64 (of_int i) = round_positive \<bar>of_int i\<bar> \<or>
        round_binary64 (of_int i) = - round_positive \<bar>of_int i :: rat\<bar>"
    using z by (auto simp: round_binary64_def abs_if)
  then have "\<bar>round_binary64 (of_int i)\<bar> = \<bar>round_positive \<bar>of_int i :: rat\<bar>\<bar>"
    by auto
  with r pow2_pos [of 1024] have "pow2 1024 \<le> \<bar>round_binary64 (of_int i)\<bar>"
    by linarith
  then show ?thesis
    by (simp add: int_to_float_def Let_def)
qed


lemma round_half_even_of_int: "round_half_even (of_int m) = m"
  by (simp add: round_half_even_def Let_def)

lemma round_binary64_exact:
  assumes "q = of_int m * pow2 (max (floor_log2 \<bar>q\<bar>) (- 1022) - 52)"
  shows "round_binary64 q = q"
proof (cases "q = 0")
  case True
  then show ?thesis by (simp add: round_binary64_def)
next
  case False
  define ulp where "ulp = pow2 (max (floor_log2 \<bar>q\<bar>) (- 1022) - 52)"
  have u: "0 < ulp" unfolding ulp_def by (rule pow2_pos)
  have q: "q = of_int m * ulp" using assms unfolding ulp_def .
  have a: "\<bar>q\<bar> = of_int \<bar>m\<bar> * ulp"
    unfolding q using u by (simp add: abs_mult)
  have d: "\<bar>q\<bar> / ulp = of_int \<bar>m\<bar>"
    using u unfolding a by simp
  have "round_positive \<bar>q\<bar> = of_int (round_half_even (\<bar>q\<bar> / ulp)) * ulp"
    by (simp add: round_positive_def Let_def ulp_def)
  also have "\<dots> = of_int \<bar>m\<bar> * ulp"
    by (simp only: d round_half_even_of_int)
  finally have "round_positive \<bar>q\<bar> = \<bar>q\<bar>"
    using a by simp
  then show ?thesis
    using False by (auto simp: round_binary64_def abs_if)
qed

subsection \<open>The catalog and the warm-up scan\<close>

lemma SENSOR_TYPES_keys:
  "map key SENSOR_TYPES =
     [''nh3_MR100'', ''cl2_M20'', ''co'', ''co2'', ''dewpt'', ''ethanol'', ''ch2o_M10'', ''h2s'',
      ''health'', ''humidity'', ''humidity_abs'', ''h2_M1000'', ''ch4_MIPEX'', ''n2o'',
      ''no_M250'', ''no2'', ''o3'', ''oxygen'', ''performance'', ''pm1'', ''pm2_5'', ''pm10'',
      ''pressure'', ''pressure_rel'', ''c3h8_MIPEX'', ''so2'', ''sound'', ''sound_max'',
      ''radon'', ''temperature'', ''tvoc'', ''tvoc_ionsc'']"
  by (simp add: SENSOR_TYPES_def)

lemma distinct_SENSOR_TYPES_keys: "distinct (map key SENSOR_TYPES)"
  unfolding SENSOR_TYPES_keys by simp

lemma SENSOR_TYPES_value_transform_fn:
  assumes "d \<in> set SENSOR_TYPES"
  shows "value_transform_fn d =
           (if key d = ''health'' \<or> key d = ''performance'' then index2percent
            else default_value_transform_fn)"
  using assms unfolding SENSOR_TYPES_def by auto

lemma warming_up_sensors_set:
  assumes "warming_up_sensors items = Inr ks"
  shows "set ks = {k. \<exists>v. (k, v) \<in> set items \<and>
                        str_in ''sensor still in warm up phase'' v = Inr True}"
  using assms
proof (induction items arbitrary: ks)
  case Nil
  then show ?case by simp
next
  case (Cons item items)
  obtain k v where item: "item = (k, v)" by (cases item)
  from Cons.prems item obtain warm ks' where
    w: "str_in ''sensor still in warm up phase'' v = Inr warm"
    and r: "warming_up_sensors items = Inr ks'"
    and ks: "ks = (if warm then k # ks' else ks')"
    by (auto split: sum.splits)
  from Cons.IH [OF r] have ih: "set ks' = {k. \<exists>v. (k, v) \<in> set items \<and>
                        str_in ''sensor still in warm up phase'' v = Inr True}" .
  show ?case
    using w by (auto simp: item ks ih)
qed

lemma async_setup_entry_InrD:
  assumes "async_setup_entry D hass config = Inr (entities, logged)"
  shows "\<exists>entries coord status.
           getitem (hass_data hass) D = Inr entries \<and>
           getitem entries (entry_id config) = Inr coord \<and>
           getitem (data coord) ''Status'' = Inr status \<and>
           entities =
             map (AirQSensor_init coord)
               (filter (\<lambda>d. key d \<in> fst ` set (data coord) \<or>
                           (\<exists>items v. status = PDict items \<and> (key d, v) \<in> set items \<and>
                              str_in ''sensor still in warm up phase'' v = Inr True))
                  SENSOR_TYPES)"
proof -
  from assms obtain entries coord status where
    e: "getitem (hass_data hass) D = Inr entries"
    and c: "getitem entries (entry_id config) = Inr coord"
    and s: "getitem (data coord) ''Status'' = Inr status"
    unfolding async_setup_entry_def by (auto split: sum.splits)
  have "entities =
             map (AirQSensor_init coord)
               (filter (\<lambda>d. key d \<in> fst ` set (data coord) \<or>
                           (\<exists>items v. status = PDict items \<and> (key d, v) \<in> set items \<and>
                              str_in ''sensor still in warm up phase'' v = Inr True))
                  SENSOR_TYPES)"
  proof (cases "\<exists>items. status = PDict items")
    case True
    then obtain items where st: "status = PDict items" by blast
    from assms e c s st obtain ks where w: "warming_up_sensors items = Inr ks"
      unfolding async_setup_entry_def by (auto split: sum.splits)
    from assms e c s st w
    have ent: "entities = map (AirQSensor_init coord)
            (filter (\<lambda>d. key d \<in> set (map fst (data coord) @ ks)) SENSOR_TYPES)"
      unfolding async_setup_entry_def by (simp add: Let_def)
    have eq: "(\<lambda>d. key d \<in> set (map fst (data coord) @ ks)) =
        (\<lambda>d. key d \<in> fst ` set (data coord) \<or>
        (\<exists>items v. status = PDict items \<and> (key d, v) \<in> set items \<and>
           str_in ''sensor still in warm up phase'' v = Inr True))"
      using warming_up_sensors_set [OF w] st by (intro ext) auto
    show ?thesis using ent by (simp only: eq)
  next
    case False
    from assms e c s False
    have ent: "entities = map (AirQSensor_init coord)
            (filter (\<lambda>d. key d \<in> set (map fst (data coord))) SENSOR_TYPES)"
      unfolding async_setup_entry_def by (cases status) (auto simp: Let_def)
    have eq: "(\<lambda>d. key d \<in> set (map fst (data coord))) =
        (\<lambda>d. key d \<in> fst ` set (data coord) \<or>
        (\<exists>items v. status = PDict items \<and> (key d, v) \<in> set items \<and>
           str_in ''sensor still in warm up phase'' v = Inr True))"
      using False by (intro ext) auto
    show ?thesis using ent by (simp only: eq)
  qed
  with e c s show ?thesis by blast
qed

subsection \<open>C2: sensors that are warming up\<close>

text \<open>
  Claim C2 on the code. A coordinator whose data holds \<open>co2\<close> and a \<open>Status\<close> that lists
  \<open>health\<close> and \<open>co\<close> as warming up: the three entities are created, and reading them
  while \<open>health\<close> and \<open>co\<close> are absent from the data gives \<open>None\<close> for \<open>co\<close> but raises
  \<open>TypeError\<close> for \<open>health\<close>, whose transform divides the \<open>None\<close> that \<open>data.get\<close>
  returned by \<open>10.0\<close>.
\<close>

theorem warming_up_health_read_raises:
  "(case async_setup_entry ''airq'' (example_hass warming_up_coordinator) example_config of
      Inl e \<Rightarrow> []
    | Inr (entities, logged) \<Rightarrow>
        map (\<lambda>e. (key (entity_description e), native_value e)) entities) =
   [(''co'', Inr PNone), (''co2'', Inr (PInt 450)), (''health'', Inl TypeError)]"
  by (simp add: async_setup_entry_def example_hass_def example_config_def
      warming_up_coordinator_def getitem_def SENSOR_TYPES_def AirQSensor_init_def
      native_value_def dict_get_def default_value_transform_fn_def)

text \<open>
  In general a read of an absent key returns \<open>None\<close> for every catalog entry with the
  default transform and raises \<open>TypeError\<close> for the two index sensors.
\<close>

lemma native_value_absent_key:
  assumes "entity_description e \<in> set SENSOR_TYPES"
      and "map_of (data (coordinator e)) (key (entity_description e)) = None"
  shows "native_value e =
           (if key (entity_description e) = ''health'' \<or>
               key (entity_description e) = ''performance''
            then Inl TypeError else Inr PNone)"
  using assms SENSOR_TYPES_value_transform_fn [OF assms(1)]
  by (simp add: native_value_def dict_get_def default_value_transform_fn_def)

subsection \<open>C5: only available sensors get an entity\<close>

text \<open>
  Claim C5. When \<open>async_setup_entry\<close> hands a list of entities to the framework, a catalog
  entry whose key is neither a key of the coordinator's data nor a key that \<open>Status\<close>, being
  a dictionary, lists with a value containing \<open>"sensor still in warm up phase"\<close> has no
  entity; and every entity is \<open>AirQSensor(coordinator, description)\<close> for a \<open>description\<close>
  of the catalog whose key is available in one of these two ways.
\<close>

theorem only_available_sensors_created:
  assumes "async_setup_entry D hass config = Inr (entities, logged)"
  shows "\<exists>entries coord status.
           getitem (hass_data hass) D = Inr entries \<and>
           getitem entries (entry_id config) = Inr coord \<and>
           getitem (data coord) ''Status'' = Inr status \<and>
           (\<forall>d \<in> set SENSOR_TYPES.
              key d \<notin> fst ` set (data coord) \<and>
              (\<nexists>items v. status = PDict items \<and> (key d, v) \<in> set items \<and>
                 str_in ''sensor still in warm up phase'' v = Inr True)
              \<longrightarrow> (\<nexists>e. e \<in> set entities \<and> key (entity_description e) = key d)) \<and>
           (\<forall>e \<in> set entities.
              entity_description e \<in> set SENSOR_TYPES \<and>
              e = AirQSensor_init coord (entity_description e) \<and>
              (key (entity_description e) \<in> fst ` set (data coord) \<or>
               (\<exists>items v. status = PDict items \<and> (key (entity_description e), v) \<in> set items \<and>
                  str_in ''sensor still in warm up phase'' v = Inr True)))"
proof -
  from async_setup_entry_InrD [OF assms] obtain entries coord status where
    e: "getitem (hass_data hass) D = Inr entries"
    and c: "getitem entries (entry_id config) = Inr coord"
    and s: "getitem (data coord) ''Status'' = Inr status"
    and es: "entities =
             map (AirQSensor_init coord)
               (filter (\<lambda>d. key d \<in> fst ` set (data coord) \<or>
                           (\<exists>items v. status = PDict items \<and> (key d, v) \<in> set items \<and>
                              str_in ''sensor still in warm up phase'' v = Inr True))
                  SENSOR_TYPES)"
    by blast
  have d: "entity_description (AirQSensor_init coord d) = d" for d
    by (simp add: AirQSensor_init_def)
  have 1: "\<forall>d \<in> set SENSOR_TYPES.
              key d \<notin> fst ` set (data coord) \<and>
              (\<nexists>items v. status = PDict items \<and> (key d, v) \<in> set items \<and>
                 str_in ''sensor still in warm up phase'' v = Inr True)
              \<longrightarrow> (\<nexists>e. e \<in> set entities \<and> key (entity_description e) = key d)"
    unfolding es by (force simp: d)
  have 2: "\<forall>e \<in> set entities.
              entity_description e \<in> set SENSOR_TYPES \<and>
              e = AirQSensor_init coord (entity_description e) \<and>
              (key (entity_description e) \<in> fst ` set (data coord) \<or>
               (\<exists>items v. status = PDict items \<and> (key (entity_description e), v) \<in> set items \<and>
                  str_in ''sensor still in warm up phase'' v = Inr True))"
    unfolding es by (auto simp: d)
  from e c s 1 2 show ?thesis by blast
qed

text \<open>The theorem at the warming-up coordinator.\<close>

theorem only_available_sensors_created_witness:
  "\<exists>entities logged entries coord status.
     async_setup_entry ''airq'' (example_hass warming_up_coordinator) example_config =
       Inr (entities, logged) \<and>
     map (\<lambda>e. key (entity_description e)) entities = [''co'', ''co2'', ''health''] \<and>
     getitem (hass_data (example_hass warming_up_coordinator)) ''airq'' = Inr entries \<and>
     getitem entries (entry_id example_config) = Inr coord \<and>
     getitem (data coord) ''Status'' = Inr status \<and>
     list_all (\<lambda>e. entity_description e \<in> set SENSOR_TYPES) entities"
proof -
  have "\<exists>entities logged.
     async_setup_entry ''airq'' (example_hass warming_up_coordinator) example_config =
       Inr (entities, logged) \<and>
     map (\<lambda>e. key (entity_description e)) entities = [''co'', ''co2'', ''health'']"
    by (simp add: async_setup_entry_def example_hass_def example_config_def
        warming_up_coordinator_def getitem_def SENSOR_TYPES_def AirQSensor_init_def)
  then obtain entities logged where
    s: "async_setup_entry ''airq'' (example_hass warming_up_coordinator) example_config =
       Inr (entities, logged)"
    and k: "map (\<lambda>e. key (entity_description e)) entities = [''co'', ''co2'', ''health'']"
    by (elim exE conjE)
  from only_available_sensors_created [OF s] obtain entries coord status where
    e: "getitem (hass_data (example_hass warming_up_coordinator)) ''airq'' = Inr entries"
    and c: "getitem entries (entry_id example_config) = Inr coord"
    and st: "getitem (data coord) ''Status'' = Inr status"
    and b: "\<forall>e \<in> set entities. entity_description e \<in> set SENSOR_TYPES"
    by (elim exE conjE) simp
  from b have la: "list_all (\<lambda>e. entity_description e \<in> set SENSOR_TYPES) entities"
    by (simp add: list_all_iff)
  have "async_setup_entry ''airq'' (example_hass warming_up_coordinator) example_config =
       Inr (entities, logged) \<and>
     map (\<lambda>e. key (entity_description e)) entities = [''co'', ''co2'', ''health''] \<and>
     getitem (hass_data (example_hass warming_up_coordinator)) ''airq'' = Inr entries \<and>
     getitem entries (entry_id example_config) = Inr coord \<and>
     getitem (data coord) ''Status'' = Inr status \<and>
     list_all (\<lambda>e. entity_description e \<in> set SENSOR_TYPES) entities"
    using s k e c st la by (simp only:)
  then show ?thesis
    by (intro exI)
qed

subsection \<open>C6: the value transform\<close>


lemma index2percent_rounds:
  "index2percent (PFloat (Finite (4078308529746739 / 4398046511104))) =
     Inr (PFloat (Finite (3262646823797391 / 35184372088832)))"
  by code_simp

lemma index2percent_overflows: "index2percent (PInt (10 ^ 309)) = Inl OverflowError"
proof -
  have "(2::int) ^ 1024 \<le> \<bar>10 ^ 309\<bar>" by simp
  then show ?thesis
    by (simp only: index2percent.simps int_to_float_overflow sum.case)
qed



subsection \<open>C9: the \<open>Status\<close> key\<close>

text \<open>
  Claim C9. Once the coordinator is found, \<open>async_setup_entry\<close> indexes its data at
  \<open>"Status"\<close>: without that key it raises \<open>KeyError\<close>; with a value that is not a
  dictionary it skips the warm-up scan (nothing is logged about warming up) and creates the
  entities of the catalog entries whose keys are keys of the data.
\<close>

theorem Status_key_is_a_precondition:
  assumes "getitem (hass_data hass) D = Inr entries"
      and "getitem entries (entry_id config) = Inr coord"
  shows "(map_of (data coord) ''Status'' = None \<longrightarrow>
            async_setup_entry D hass config = Inl (KeyError ''Status'')) \<and>
         (\<forall>status. map_of (data coord) ''Status'' = Some status \<and>
                    (\<nexists>items. status = PDict items) \<longrightarrow>
            async_setup_entry D hass config =
              Inr (map (AirQSensor_init coord)
                     (filter (\<lambda>d. key d \<in> set (map fst (data coord))) SENSOR_TYPES),
                   [Debug ''Identified %d available sensors: %s''
                      (length (filter (\<lambda>d. key d \<in> set (map fst (data coord))) SENSOR_TYPES))
                      (join '', '' (map key
                         (filter (\<lambda>d. key d \<in> set (map fst (data coord))) SENSOR_TYPES)))]))"
proof (intro conjI allI impI)
  assume "map_of (data coord) ''Status'' = None"
  with assms show "async_setup_entry D hass config = Inl (KeyError ''Status'')"
    by (simp add: async_setup_entry_def getitem_def)
next
  fix status
  assume a: "map_of (data coord) ''Status'' = Some status \<and> (\<nexists>items. status = PDict items)"
  then have g: "getitem (data coord) ''Status'' = Inr status"
    by (simp add: getitem_def)
  from a assms g show "async_setup_entry D hass config =
              Inr (map (AirQSensor_init coord)
                     (filter (\<lambda>d. key d \<in> set (map fst (data coord))) SENSOR_TYPES),
                   [Debug ''Identified %d available sensors: %s''
                      (length (filter (\<lambda>d. key d \<in> set (map fst (data coord))) SENSOR_TYPES))
                      (join '', '' (map key
                         (filter (\<lambda>d. key d \<in> set (map fst (data coord))) SENSOR_TYPES)))])"
    unfolding async_setup_entry_def by (cases status) (simp_all add: Let_def)
qed

text \<open>
  The theorem at a coordinator without \<open>Status\<close> and at one whose \<open>Status\<close> is the string
  \<open>"OK"\<close>.
\<close>

theorem Status_key_is_a_precondition_witness:
  "async_setup_entry ''airq'' (example_hass statusless_coordinator) example_config =
     Inl (KeyError ''Status'') \<and>
   (\<exists>entities logged.
      async_setup_entry ''airq'' (example_hass steady_coordinator) example_config =
        Inr (entities, logged) \<and>
      map (\<lambda>e. key (entity_description e)) entities = [''health'', ''temperature''] \<and>
      logged = [Debug ''Identified %d available sensors: %s'' 2 ''health, temperature''])"
proof -
  have e: "getitem (hass_data (example_hass c)) ''airq'' = Inr [(''entry-1'', c)]" for c
    by (simp add: example_hass_def getitem_def)
  have c: "getitem [(''entry-1'', c)] (entry_id example_config) = Inr c" for c :: AirQCoordinator
    by (simp add: example_config_def getitem_def)
  have n: "map_of (data statusless_coordinator) ''Status'' = None"
    by (simp add: statusless_coordinator_def)
  have s: "map_of (data steady_coordinator) ''Status'' = Some (PStr ''OK'') \<and>
           (\<nexists>items. PStr ''OK'' = PDict items)"
    by (simp add: steady_coordinator_def)
  from Status_key_is_a_precondition [OF e c, of statusless_coordinator] n
  have 1: "async_setup_entry ''airq'' (example_hass statusless_coordinator) example_config =
     Inl (KeyError ''Status'')"
    by blast
  from Status_key_is_a_precondition [OF e c, of steady_coordinator] s
  have "async_setup_entry ''airq'' (example_hass steady_coordinator) example_config =
      Inr (map (AirQSensor_init steady_coordinator)
                     (filter (\<lambda>d. key d \<in> set (map fst (data steady_coordinator))) SENSOR_TYPES),
                   [Debug ''Identified %d available sensors: %s''
                      (length (filter (\<lambda>d. key d \<in> set (map fst (data steady_coordinator))) SENSOR_TYPES))
                      (join '', '' (map key
                         (filter (\<lambda>d. key d \<in> set (map fst (data steady_coordinator))) SENSOR_TYPES)))])"
    by blast
  then have 2: "\<exists>entities logged.
      async_setup_entry ''airq'' (example_hass steady_coordinator) example_config =
        Inr (entities, logged) \<and>
      map (\<lambda>e. key (entity_description e)) entities = [''health'', ''temperature''] \<and>
      logged = [Debug ''Identified %d available sensors: %s'' 2 ''health, temperature'']"
    by (simp add: steady_coordinator_def SENSOR_TYPES_def AirQSensor_init_def)
  from 1 2 show ?thesis by simp
qed

subsection \<open>C10: distinct keys, distinct unique ids\<close>

lemma distinct_map_filter_le_1:
  "distinct (map f xs) \<Longrightarrow> length (filter (\<lambda>x. f x = k) xs) \<le> 1"
proof (induction xs)
  case Nil
  then show ?case by simp
next
  case (Cons x xs)
  show ?case
  proof (cases "f x = k")
    case True
    from Cons.prems have "f x \<notin> f ` set xs"
      by simp
    with True have "\<forall>y \<in> set xs. f y \<noteq> k"
      by (metis imageI)
    then have "filter (\<lambda>y. f y = k) xs = []"
      by (simp add: filter_empty_conv)
    with True show ?thesis by simp
  next
    case False
    with Cons show ?thesis by simp
  qed
qed

text \<open>
  Claim C10. The keys of the catalog are pairwise distinct. So the entities
  \<open>async_setup_entry\<close> creates have pairwise distinct keys, at most one entity per catalog
  entry (also when a key is both in the data and listed as warming up), each entity's unique
  id is the device id, an underscore and the entry's key, and the unique ids are pairwise
  distinct.
\<close>

theorem one_entity_per_catalog_entry:
  assumes "async_setup_entry D hass config = Inr (entities, logged)"
  shows "distinct (map key SENSOR_TYPES) \<and>
         distinct (map (\<lambda>e. key (entity_description e)) entities) \<and>
         (\<forall>d \<in> set SENSOR_TYPES.
            length (filter (\<lambda>e. key (entity_description e) = key d) entities) \<le> 1) \<and>
         (\<forall>e \<in> set entities.
            attr_unique_id e = device_id (coordinator e) @ ''_'' @ key (entity_description e)) \<and>
         distinct (map attr_unique_id entities)"
proof -
  from async_setup_entry_InrD [OF assms] obtain coord P where
    es: "entities = map (AirQSensor_init coord) (filter P SENSOR_TYPES)"
    by blast
  have k: "map (\<lambda>e. key (entity_description e)) entities = map key (filter P SENSOR_TYPES)"
    by (simp add: es AirQSensor_init_def comp_def)
  have dk: "distinct (map (\<lambda>e. key (entity_description e)) entities)"
    unfolding k by (rule distinct_map_filter) (rule distinct_SENSOR_TYPES_keys)
  have u: "map attr_unique_id entities =
             map (\<lambda>k. device_id coord @ ''_'' @ k) (map key (filter P SENSOR_TYPES))"
    by (simp add: es AirQSensor_init_def comp_def)
  have du: "distinct (map attr_unique_id entities)"
    unfolding u using dk [unfolded k] by (simp add: distinct_map inj_on_def)
  have a: "\<forall>e \<in> set entities.
            attr_unique_id e = device_id (coordinator e) @ ''_'' @ key (entity_description e)"
    by (auto simp: es AirQSensor_init_def)
  have c: "\<forall>d \<in> set SENSOR_TYPES.
            length (filter (\<lambda>e. key (entity_description e) = key d) entities) \<le> 1"
    using distinct_map_filter_le_1 [OF dk] by blast
  from distinct_SENSOR_TYPES_keys dk c a du show ?thesis by blast
qed

text \<open>
  The theorem at a coordinator whose \<open>co\<close> is both in the data and listed as warming up.
\<close>

theorem one_entity_per_catalog_entry_witness:
  "\<exists>entities logged.
     async_setup_entry ''airq'' (example_hass overlapping_coordinator) example_config =
       Inr (entities, logged) \<and>
     map attr_unique_id entities = [''0a1b2c_co'', ''0a1b2c_temperature''] \<and>
     distinct (map attr_unique_id entities) \<and>
     distinct (map (\<lambda>e. key (entity_description e)) entities)"
proof -
  have "\<exists>entities logged.
     async_setup_entry ''airq'' (example_hass overlapping_coordinator) example_config =
       Inr (entities, logged) \<and>
     map attr_unique_id entities = [''0a1b2c_co'', ''0a1b2c_temperature'']"
    by (simp add: async_setup_entry_def example_hass_def example_config_def
        overlapping_coordinator_def getitem_def SENSOR_TYPES_def AirQSensor_init_def)
  then obtain entities logged where
    s: "async_setup_entry ''airq'' (example_hass overlapping_coordinator) example_config =
       Inr (entities, logged)"
    and u: "map attr_unique_id entities = [''0a1b2c_co'', ''0a1b2c_temperature'']"
    by (elim exE conjE)
  note t = one_entity_per_catalog_entry [OF s]
  from t have d: "distinct (map attr_unique_id entities)"
    by (elim conjE)
  from t have dk: "distinct (map (\<lambda>e. key (entity_description e)) entities)"
    by (elim conjE)
  have "async_setup_entry ''airq'' (example_hass overlapping_coordinator) example_config =
       Inr (entities, logged) \<and>
     map attr_unique_id entities = [''0a1b2c_co'', ''0a1b2c_temperature''] \<and>
     distinct (map attr_unique_id entities) \<and>
     distinct (map (\<lambda>e. key (entity_description e)) entities)"
    using s u d dk by (simp only:)
  then show ?thesis
    by (intro exI)
qed

end
